theory Spec2Isabelle
  imports Main "HOL-Library.Sublist"
begin

section \<open>Rule engine\<close>

text \<open>
  The rule engine classifies a raw URL string against two pattern lists. It relies on two
  functions of Go's standard library, \<^verbatim>\<open>url.Parse\<close> and \<^verbatim>\<open>path.Match\<close>, which are
  not part of the repository. The engine is therefore embedded with both as parameters;
  every general property below holds for any parser and any matcher. Concrete models of
  the two library functions follow in their own section and are used wherever a property
  is evaluated on concrete strings.
\<close>

datatype DecisionType = Allowed | Denied | PromptUser

text \<open>The fields of \<^verbatim>\<open>url.URL\<close> that the program reads or that a raw URL is split into.\<close>

record URL =
  Scheme :: string
  Opaque :: string
  Host :: string
  Path :: string
  RawQuery :: string
  Fragment :: string

text \<open>\<^verbatim>\<open>url.Parse\<close>: \<open>Inl\<close> carries the error, \<open>Inr\<close> the parsed URL.\<close>

type_synonym url_parser = "string \<Rightarrow> string + URL"

text \<open>\<^verbatim>\<open>path.Match\<close> with its error result discarded, as every call site does
  (\<^verbatim>\<open>matched, _ := path.Match(pattern, s)\<close>).\<close>

type_synonym path_matcher = "string \<Rightarrow> string \<Rightarrow> bool"

record RuleEngine =
  allowAlwaysPatterns :: "string list"
  denyAlwaysPatterns :: "string list"

definition NewRuleEngine :: "string list \<Rightarrow> string list \<Rightarrow> RuleEngine" where
  "NewRuleEngine allowPatterns denyPatterns =
     \<lparr>allowAlwaysPatterns = allowPatterns, denyAlwaysPatterns = denyPatterns\<rparr>"

definition UpdateRules :: "RuleEngine \<Rightarrow> string list \<Rightarrow> string list \<Rightarrow> RuleEngine" where
  "UpdateRules re allowPatterns denyPatterns =
     re\<lparr>allowAlwaysPatterns := allowPatterns, denyAlwaysPatterns := denyPatterns\<rparr>"

text \<open>\<^verbatim>\<open>strings.Contains(s, substr)\<close>: some suffix of \<open>s\<close> starts with \<open>substr\<close>.\<close>

fun strings_Contains :: "string \<Rightarrow> string \<Rightarrow> bool" where
  "strings_Contains [] substr = (substr = [])"
| "strings_Contains (c # s) substr = (prefix substr (c # s) \<or> strings_Contains s substr)"

text \<open>
  The first loop of \<^verbatim>\<open>CheckURL\<close>, over the deny patterns. \<open>Some Denied\<close> is the
  \<^verbatim>\<open>return Denied\<close> inside the loop body, \<open>None\<close> is falling out of the loop.
\<close>

fun denyLoop :: "path_matcher \<Rightarrow> string list \<Rightarrow> string \<Rightarrow> string \<Rightarrow> DecisionType option" where
  "denyLoop pm [] hostWithPath host = None"
| "denyLoop pm (pattern # rest) hostWithPath host =
     (if pm pattern hostWithPath then Some Denied
      else if \<not> strings_Contains pattern ''/'' \<and> pm pattern host then Some Denied
      else denyLoop pm rest hostWithPath host)"

text \<open>The second loop, over the allow patterns.\<close>

fun allowLoop :: "path_matcher \<Rightarrow> string list \<Rightarrow> string \<Rightarrow> string \<Rightarrow> DecisionType option" where
  "allowLoop pm [] hostWithPath host = None"
| "allowLoop pm (pattern # rest) hostWithPath host =
     (if pm pattern hostWithPath then Some Allowed
      else if \<not> strings_Contains pattern ''/'' \<and> pm pattern host then Some Allowed
      else allowLoop pm rest hostWithPath host)"

definition CheckURL :: "url_parser \<Rightarrow> path_matcher \<Rightarrow> RuleEngine \<Rightarrow> string \<Rightarrow> DecisionType" where
  "CheckURL parse pm re rawURL =
     (case parse rawURL of
        Inl err \<Rightarrow> Denied
      | Inr parsedURL \<Rightarrow>
          (let hostWithPath = Host parsedURL @ Path parsedURL in
           case denyLoop pm (denyAlwaysPatterns re) hostWithPath (Host parsedURL) of
             Some d \<Rightarrow> d
           | None \<Rightarrow>
               (case allowLoop pm (allowAlwaysPatterns re) hostWithPath (Host parsedURL) of
                  Some d \<Rightarrow> d
                | None \<Rightarrow> PromptUser)))"

text \<open>
  The specification's notion of a rule match, in its own words: a pattern is matched
  against the full "host[:port]/path" string; a pattern without a path separator is
  additionally tried against "host[:port]" alone; a match on either is a rule match.
\<close>

definition spec_rule_match :: "path_matcher \<Rightarrow> string \<Rightarrow> URL \<Rightarrow> bool" where
  "spec_rule_match pm pattern u =
     (if CHR ''/'' \<in> set pattern then pm pattern (Host u @ Path u)
      else pm pattern (Host u @ Path u) \<or> pm pattern (Host u))"


section \<open>Models of the standard-library collaborators\<close>

text \<open>
  Modelled from the spec: \<^verbatim>\<open>path.Match\<close> of Go's standard library, which the
  repository calls but does not contain. The specification gives its glob semantics:
  \<open>*\<close> matches any run of characters that does not include the path separator, \<open>?\<close>
  matches exactly one such character, and every other pattern character stands for
  itself. A run may be empty, as the repository's test "Allow example.com/*, check
  example.com/" requires.
\<close>

fun path_Match :: "string \<Rightarrow> string \<Rightarrow> bool" where
  "path_Match [] name = (name = [])"
| "path_Match (c # pat) [] = (c = CHR ''*'' \<and> path_Match pat [])"
| "path_Match (c # pat) (n # name) =
     (if c = CHR ''*''
      then path_Match pat (n # name) \<or> (n \<noteq> CHR ''/'' \<and> path_Match (c # pat) name)
      else if c = CHR ''?'' then n \<noteq> CHR ''/'' \<and> path_Match pat name
      else c = n \<and> path_Match pat name)"

text \<open>
  Modelled from the spec: \<^verbatim>\<open>url.Parse\<close> of Go's standard library, which the
  repository calls but does not contain. The specification and the repository's tests
  fix what the program needs of it: a raw target
  \<open>scheme://host[:port][/path][?query][#fragment]\<close> is split into its host (with the
  port) and its path, the query and the fragment are kept apart from both, and a raw
  target with a malformed percent escape (the test input \<open>http://%\<close>) is an error.
  The model follows the order of \<^verbatim>\<open>url.Parse\<close>: fragment, scheme, query, authority,
  path. Outside the model are user information, bracketed IPv6 literals, the decoding of
  percent escapes (they are checked, the text is kept as written), the lower-casing of
  the scheme, and the rejection of control characters and of characters that a host may
  not contain.
\<close>

definition is_letter :: "char \<Rightarrow> bool" where
  "is_letter c = (c \<in> set ''abcdefghijklmnopqrstuvwxyzABCDEFGHIJKLMNOPQRSTUVWXYZ'')"

definition is_digit :: "char \<Rightarrow> bool" where
  "is_digit c = (c \<in> set ''0123456789'')"

definition ishex :: "char \<Rightarrow> bool" where
  "ishex c = (c \<in> set ''0123456789abcdefABCDEF'')"

text \<open>The scheme is the longest prefix of letters, digits, \<open>+\<close>, \<open>-\<close> and \<open>.\<close> that starts
  with a letter and is followed by a colon; a leading colon is an error.\<close>

definition getScheme :: "string \<Rightarrow> string + (string \<times> string)" where
  "getScheme rawURL =
     (let s = takeWhile (\<lambda>c. is_letter c \<or> is_digit c \<or> c \<in> set ''+-.'') rawURL;
          rest = drop (length s) rawURL
      in case rawURL of
           [] \<Rightarrow> Inr ([], rawURL)
         | c0 # _ \<Rightarrow>
             if c0 = CHR '':'' then Inl ''missing protocol scheme''
             else if \<not> is_letter c0 then Inr ([], rawURL)
             else if prefix '':'' rest then Inr (s, drop 1 rest)
             else Inr ([], rawURL))"

text \<open>Every \<open>%\<close> must be followed by two hexadecimal digits.\<close>

fun escapes_ok :: "string \<Rightarrow> bool" where
  "escapes_ok [] = True"
| "escapes_ok (c # s) =
     (if c = CHR ''%''
      then (case s of
              a # b # s' \<Rightarrow> ishex a \<and> ishex b \<and> escapes_ok s'
            | _ \<Rightarrow> False)
      else escapes_ok s)"

text \<open>A port suffix is empty or a colon followed by digits only.\<close>

definition validOptionalPort :: "string \<Rightarrow> bool" where
  "validOptionalPort port =
     (case port of [] \<Rightarrow> True
      | c # ds \<Rightarrow> c = CHR '':'' \<and> (\<forall>d \<in> set ds. is_digit d))"

definition parseHost :: "string \<Rightarrow> string + string" where
  "parseHost host =
     (let colonPort = rev (takeWhile (\<lambda>c. c \<noteq> CHR '':'') (rev host))
      in if CHR '':'' \<in> set host \<and> \<not> validOptionalPort (CHR '':'' # colonPort)
         then Inl ''invalid port after host''
         else if \<not> escapes_ok host then Inl ''invalid URL escape''
         else Inr host)"

definition url_Parse :: url_parser where
  "url_Parse rawURL =
     (let u = takeWhile (\<lambda>c. c \<noteq> CHR ''#'') rawURL;
          frag = drop (Suc (length u)) rawURL
      in case getScheme u of
           Inl e \<Rightarrow> Inl e
         | Inr (scheme, rest0) \<Rightarrow>
             (let rest = takeWhile (\<lambda>c. c \<noteq> CHR ''?'') rest0;
                  query = drop (Suc (length rest)) rest0
              in if \<not> prefix ''/'' rest \<and> scheme \<noteq> []
                 then Inr \<lparr>Scheme = scheme, Opaque = rest, Host = [], Path = [],
                           RawQuery = query, Fragment = frag\<rparr>
                 else if \<not> (scheme = [] \<and> prefix ''///'' rest) \<and> prefix ''//'' rest
                 then (let authority = takeWhile (\<lambda>c. c \<noteq> CHR ''/'') (drop 2 rest);
                           p = drop (length authority) (drop 2 rest)
                       in case parseHost authority of
                            Inl e \<Rightarrow> Inl e
                          | Inr h \<Rightarrow>
                              if \<not> escapes_ok p then Inl ''invalid URL escape''
                              else Inr \<lparr>Scheme = scheme, Opaque = [], Host = h, Path = p,
                                        RawQuery = query, Fragment = frag\<rparr>)
                 else if \<not> escapes_ok rest then Inl ''invalid URL escape''
                 else Inr \<lparr>Scheme = scheme, Opaque = [], Host = [], Path = rest,
                           RawQuery = query, Fragment = frag\<rparr>))"


text \<open>
  Modelled from the spec: \<^verbatim>\<open>URL.Hostname\<close> of Go's standard library, the host
  without its port; the specification calls it the target's host, the suggested default
  rule text. A colon suffix that is a valid port is removed, then a pair of enclosing
  square brackets.
\<close>

definition Hostname :: "URL \<Rightarrow> string" where
  "Hostname u =
     (let host = Host u;
          colonPort = rev (takeWhile (\<lambda>c. c \<noteq> CHR '':'') (rev host));
          h = (if CHR '':'' \<in> set host \<and> validOptionalPort (CHR '':'' # colonPort)
               then take (length host - Suc (length colonPort)) host
               else host)
      in if prefix ''['' h \<and> suffix '']'' h then butlast (tl h) else h)"


section \<open>Configuration manager\<close>

record Config =
  AllowAlways :: "string list"
  DenyAlways :: "string list"
  UpstreamProxy :: string

text \<open>
  A call either returns a value or never returns. The second case is what a goroutine
  does that waits for a lock which nobody will release.
\<close>

datatype 'a call = Returns 'a | Blocks

text \<open>
  The \<^verbatim>\<open>sync.RWMutex\<close> field \<^verbatim>\<open>mu\<close>, as held by the goroutine that runs the
  modelled call: free, held for writing, or held for reading a number of times. The
  mutex is not reentrant: \<^verbatim>\<open>Lock\<close> waits until the mutex is free, \<^verbatim>\<open>RLock\<close> waits
  while it is held for writing. The holder in this model is the running goroutine
  itself, so a wait here never ends and the result is \<open>None\<close>. The two unlock
  operations are only ever applied to a mutex that the same call has locked; on any
  other state, where Go aborts the program, they leave the state as it is.
\<close>

datatype RWMutex = Unlocked | WriteLocked | ReadLocked nat

definition Lock :: "RWMutex \<Rightarrow> RWMutex option" where
  "Lock m = (case m of Unlocked \<Rightarrow> Some WriteLocked | _ \<Rightarrow> None)"

definition Unlock :: "RWMutex \<Rightarrow> RWMutex" where
  "Unlock m = (case m of WriteLocked \<Rightarrow> Unlocked | _ \<Rightarrow> m)"

definition RLock :: "RWMutex \<Rightarrow> RWMutex option" where
  "RLock m =
     (case m of
        Unlocked \<Rightarrow> Some (ReadLocked 1)
      | ReadLocked n \<Rightarrow> Some (ReadLocked (Suc n))
      | WriteLocked \<Rightarrow> None)"

definition RUnlock :: "RWMutex \<Rightarrow> RWMutex" where
  "RUnlock m =
     (case m of
        ReadLocked n \<Rightarrow> (if n \<le> 1 then Unlocked else ReadLocked (n - 1))
      | _ \<Rightarrow> m)"

text \<open>
  The manager's state. \<open>configFile\<close> is the history of the file at \<open>configFilePath\<close>:
  every document that \<^verbatim>\<open>SaveConfig\<close> handed to \<^verbatim>\<open>ioutil.WriteFile\<close>, oldest first.
\<close>

record ConfigManager =
  configFilePath :: string
  config :: Config
  mu :: RWMutex
  configFile :: "Config list"

text \<open>
  \<^verbatim>\<open>SaveConfig\<close> takes the read lock, marshals the configuration and writes the file.
  The parameter \<open>writeFile\<close> is the file system's answer to the write: \<open>None\<close> for
  success, \<open>Some\<close> an error message otherwise.
\<close>

definition SaveConfig ::
  "(Config \<Rightarrow> string option) \<Rightarrow> ConfigManager \<Rightarrow> ConfigManager \<times> string option call" where
  "SaveConfig writeFile cm =
     (case RLock (mu cm) of
        None \<Rightarrow> (cm, Blocks)
      | Some m \<Rightarrow>
          (cm\<lparr>mu := RUnlock m, configFile := configFile cm @ [config cm]\<rparr>,
           Returns (writeFile (config cm))))"

definition GetConfig :: "ConfigManager \<Rightarrow> ConfigManager \<times> Config call" where
  "GetConfig cm =
     (case RLock (mu cm) of
        None \<Rightarrow> (cm, Blocks)
      | Some m \<Rightarrow> (cm\<lparr>mu := RUnlock m\<rparr>, Returns (config cm)))"

definition GetUpstreamProxy :: "ConfigManager \<Rightarrow> ConfigManager \<times> string call" where
  "GetUpstreamProxy cm =
     (case RLock (mu cm) of
        None \<Rightarrow> (cm, Blocks)
      | Some m \<Rightarrow> (cm\<lparr>mu := RUnlock m\<rparr>, Returns (UpstreamProxy (config cm))))"

text \<open>The duplicate scan \<^verbatim>\<open>for _, p := range list { if p == pattern { return nil } }\<close>:
  \<open>True\<close> when the loop body returns.\<close>

fun alreadyExists :: "string list \<Rightarrow> string \<Rightarrow> bool" where
  "alreadyExists [] pattern = False"
| "alreadyExists (p # ps) pattern = (if p = pattern then True else alreadyExists ps pattern)"

text \<open>
  \<^verbatim>\<open>AddAllowRule\<close> takes the write lock and defers its release to the return. A
  pattern already present returns \<^verbatim>\<open>nil\<close> at once; otherwise the pattern is appended
  and \<^verbatim>\<open>SaveConfig\<close> is called with the write lock still held.
\<close>

definition AddAllowRule ::
  "(Config \<Rightarrow> string option) \<Rightarrow> ConfigManager \<Rightarrow> string \<Rightarrow> ConfigManager \<times> string option call" where
  "AddAllowRule writeFile cm pattern =
     (case Lock (mu cm) of
        None \<Rightarrow> (cm, Blocks)
      | Some m \<Rightarrow>
          (let cm1 = cm\<lparr>mu := m\<rparr>
           in if alreadyExists (AllowAlways (config cm1)) pattern
              then (cm1\<lparr>mu := Unlock (mu cm1)\<rparr>, Returns None)
              else
                (let cm2 = cm1\<lparr>config := (config cm1)
                                 \<lparr>AllowAlways := AllowAlways (config cm1) @ [pattern]\<rparr>\<rparr>
                 in case SaveConfig writeFile cm2 of
                      (cm3, Blocks) \<Rightarrow> (cm3, Blocks)
                    | (cm3, Returns err) \<Rightarrow> (cm3\<lparr>mu := Unlock (mu cm3)\<rparr>, Returns err))))"

definition AddDenyRule ::
  "(Config \<Rightarrow> string option) \<Rightarrow> ConfigManager \<Rightarrow> string \<Rightarrow> ConfigManager \<times> string option call" where
  "AddDenyRule writeFile cm pattern =
     (case Lock (mu cm) of
        None \<Rightarrow> (cm, Blocks)
      | Some m \<Rightarrow>
          (let cm1 = cm\<lparr>mu := m\<rparr>
           in if alreadyExists (DenyAlways (config cm1)) pattern
              then (cm1\<lparr>mu := Unlock (mu cm1)\<rparr>, Returns None)
              else
                (let cm2 = cm1\<lparr>config := (config cm1)
                                 \<lparr>DenyAlways := DenyAlways (config cm1) @ [pattern]\<rparr>\<rparr>
                 in case SaveConfig writeFile cm2 of
                      (cm3, Blocks) \<Rightarrow> (cm3, Blocks)
                    | (cm3, Returns err) \<Rightarrow> (cm3\<lparr>mu := Unlock (mu cm3)\<rparr>, Returns err))))"


section \<open>Prompt dialog\<close>

datatype UserDecision =
    UserDecisionAllowOnce
  | UserDecisionDenyOnce
  | UserDecisionAllowAlways
  | UserDecisionDenyAlways
  | UserDecisionError
  | UserDecisionDialogDismissed

text \<open>A prompt request without its response channel, which is kept in the state of the
  dialog (\<open>ResponseChan\<close> below).\<close>

record PromptRequest =
  promptURL :: string
  DefaultRule :: string

record PromptResponse =
  Decision :: UserDecision
  RuleToAdd :: string

text \<open>
  The callback installed with \<^verbatim>\<open>SetOnClosed\<close>, as a function of the variable
  \<^verbatim>\<open>chosenDecision\<close> at the time the window closes. The result is the list of values
  the callback sends on \<^verbatim>\<open>req.ResponseChan\<close>. \<open>tempChan\<close> is the buffered channel of
  capacity one after the send; the \<^verbatim>\<open>select\<close> receives from it when it holds a value.
\<close>

definition OnClosed :: "UserDecision \<Rightarrow> PromptResponse list" where
  "OnClosed chosenDecision =
     (if chosenDecision = UserDecisionDialogDismissed
      then (let tempChan = [\<lparr>Decision = UserDecisionDenyOnce, RuleToAdd = []\<rparr>]
            in case tempChan of
                 val # _ \<Rightarrow> [val]
               | [] \<Rightarrow> [])
      else [])"

text \<open>The response that the "Deny Always" button passes to \<^verbatim>\<open>sendResponse\<close>.\<close>

definition btnDenyAlways :: "PromptRequest \<Rightarrow> PromptResponse" where
  "btnDenyAlways req = \<lparr>Decision = UserDecisionDenyAlways, RuleToAdd = DefaultRule req\<rparr>"

text \<open>
  \<^verbatim>\<open>RequestUserDecision\<close> builds the prompt request and waits for the response. The
  parameter \<open>user\<close> stands for the dialog and the person in front of it: it gives the
  response that arrives on the request's channel.
\<close>

definition newPromptRequest :: "url_parser \<Rightarrow> string \<Rightarrow> PromptRequest" where
  "newPromptRequest parse requestURL =
     \<lparr>promptURL = requestURL,
      DefaultRule = (case parse requestURL of
                       Inr parsedURL \<Rightarrow> Hostname parsedURL
                     | Inl err \<Rightarrow> requestURL)\<rparr>"

definition RequestUserDecision ::
  "url_parser \<Rightarrow> (PromptRequest \<Rightarrow> PromptResponse) \<Rightarrow> string \<Rightarrow> UserDecision \<times> string" where
  "RequestUserDecision parse user requestURL =
     (let response = user (newPromptRequest parse requestURL)
      in (Decision response, RuleToAdd response))"

text \<open>
  The unbuffered channel \<^verbatim>\<open>req.ResponseChan\<close>. \<open>receivers\<close> counts the goroutines that
  wait in a receive: \<^verbatim>\<open>RequestUserDecision\<close> makes the channel and receives from it
  once. \<open>sending\<close> holds the values of the goroutines suspended in a send, \<open>received\<close>
  the values handed to a receiver, oldest first. The channel is never closed.

  A send hands its value to a waiting receiver. With no receiver waiting the sender is
  suspended. Every callback of the dialog runs on the goroutine of the user interface
  and nothing but \<^verbatim>\<open>RequestUserDecision\<close> receives, so a sender suspended after the one
  receive stays suspended: the call is \<open>Blocks\<close>.
\<close>

record Chan =
  receivers :: nat
  sending :: "PromptResponse list"
  received :: "PromptResponse list"

definition chan_send :: "PromptResponse \<Rightarrow> Chan \<Rightarrow> Chan \<times> unit call" where
  "chan_send v ch =
     (if 0 < receivers ch
      then (ch\<lparr>receivers := receivers ch - 1, received := received ch @ [v]\<rparr>, Returns ())
      else (ch\<lparr>sending := sending ch @ [v]\<rparr>, Blocks))"

text \<open>
  The state that the closures of \<^verbatim>\<open>showPromptDialog\<close> share: the request with its
  channel, the variables \<^verbatim>\<open>chosenDecision\<close> and \<^verbatim>\<open>chosenRule\<close>, and whether
  \<^verbatim>\<open>dialogWindow\<close> is open. \<open>showPromptDialog\<close> is the state when the window is shown.
\<close>

record Dialog =
  req :: PromptRequest
  ResponseChan :: Chan
  chosenDecision :: UserDecision
  chosenRule :: string
  windowOpen :: bool

definition showPromptDialog :: "PromptRequest \<Rightarrow> Dialog" where
  "showPromptDialog rq =
     \<lparr>req = rq,
      ResponseChan = \<lparr>receivers = 1, sending = [], received = []\<rparr>,
      chosenDecision = UserDecisionDialogDismissed,
      chosenRule = [],
      windowOpen = True\<rparr>"

text \<open>
  The callback installed with \<^verbatim>\<open>SetOnClosed\<close>, on the state of the dialog: it sends on
  \<^verbatim>\<open>req.ResponseChan\<close> what \<open>OnClosed\<close> gives for the current \<^verbatim>\<open>chosenDecision\<close>.
\<close>

definition dialogWindow_OnClosed :: "Dialog \<Rightarrow> Dialog \<times> unit call" where
  "dialogWindow_OnClosed d =
     (case OnClosed (chosenDecision d) of
        [] \<Rightarrow> (d, Returns ())
      | val # _ \<Rightarrow>
          (case chan_send val (ResponseChan d) of
             (ch, r) \<Rightarrow> (d\<lparr>ResponseChan := ch\<rparr>, r)))"

text \<open>
  Modelled from the spec: the window of the user-interface toolkit, which the repository
  drives but does not contain; the specification names its two event sources, a button
  and the closing of the window. Closing an open window runs the callback installed with
  \<^verbatim>\<open>SetOnClosed\<close>, once.
\<close>

definition dialogWindow_Close :: "Dialog \<Rightarrow> Dialog \<times> unit call" where
  "dialogWindow_Close d =
     (if windowOpen d then dialogWindow_OnClosed (d\<lparr>windowOpen := False\<rparr>)
      else (d, Returns ()))"

text \<open>
  The closure \<^verbatim>\<open>sendResponse\<close>. Its \<^verbatim>\<open>select\<close> receives from \<^verbatim>\<open>req.ResponseChan\<close>
  without waiting, which yields a value only when a sender is suspended on the channel;
  otherwise the \<^verbatim>\<open>default\<close> branch goes on to the send and to \<^verbatim>\<open>dialogWindow.Close()\<close>.
\<close>

definition sendResponse :: "UserDecision \<Rightarrow> string \<Rightarrow> Dialog \<Rightarrow> Dialog \<times> unit call" where
  "sendResponse decision rule d =
     (case sending (ResponseChan d) of
        v # vs \<Rightarrow> (d\<lparr>ResponseChan := (ResponseChan d)\<lparr>sending := vs\<rparr>\<rparr>, Returns ())
      | [] \<Rightarrow>
          (case chan_send \<lparr>Decision = decision, RuleToAdd = rule\<rparr> (ResponseChan d) of
             (ch, Blocks) \<Rightarrow> (d\<lparr>ResponseChan := ch\<rparr>, Blocks)
           | (ch, Returns _) \<Rightarrow> dialogWindow_Close (d\<lparr>ResponseChan := ch\<rparr>)))"

text \<open>The callbacks of the buttons "Allow Once", "Deny Once" and "Deny Always".\<close>

definition btnAllowOnce_OnTapped :: "Dialog \<Rightarrow> Dialog \<times> unit call" where
  "btnAllowOnce_OnTapped d =
     sendResponse UserDecisionAllowOnce [] (d\<lparr>chosenDecision := UserDecisionAllowOnce\<rparr>)"

definition btnDenyOnce_OnTapped :: "Dialog \<Rightarrow> Dialog \<times> unit call" where
  "btnDenyOnce_OnTapped d =
     sendResponse UserDecisionDenyOnce [] (d\<lparr>chosenDecision := UserDecisionDenyOnce\<rparr>)"

definition btnDenyAlways_OnTapped :: "Dialog \<Rightarrow> Dialog \<times> unit call" where
  "btnDenyAlways_OnTapped d =
     sendResponse UserDecisionDenyAlways (DefaultRule (req d))
       (d\<lparr>chosenDecision := UserDecisionDenyAlways\<rparr>)"

text \<open>
  The callback of the form "Add Permanent Allow Rule". \<open>entryText\<close> is the text of the
  entry field when the form is answered, \<open>confirm\<close> tells its two buttons apart, and
  \<open>trimSpace\<close> stands for \<^verbatim>\<open>strings.TrimSpace\<close>. A blank rule shows an error dialog and
  sends nothing; so does a cancelled form.
\<close>

definition allowAlwaysForm_callback ::
  "(string \<Rightarrow> string) \<Rightarrow> string \<Rightarrow> bool \<Rightarrow> Dialog \<Rightarrow> Dialog \<times> unit call" where
  "allowAlwaysForm_callback trimSpace entryText confirm d =
     (if confirm
      then (let d1 = d\<lparr>chosenRule := entryText\<rparr>
            in if trimSpace (chosenRule d1) = [] then (d1, Returns ())
               else sendResponse UserDecisionAllowAlways (chosenRule d1)
                      (d1\<lparr>chosenDecision := UserDecisionAllowAlways\<rparr>))
      else (d, Returns ()))"

text \<open>
  Modelled from the spec: the events that the window of the toolkit hands to the dialog.
  A tap on a button runs that button's callback; "Allow Always..." only shows the form;
  the window manager's close button closes the window. A window that is closed hands
  out no further event. \<open>runDialog\<close> runs the callbacks of a sequence of events one
  after the other, as the goroutine of the user interface does, and stops at a callback
  that blocks.
\<close>

datatype Event =
    TapAllowOnce
  | TapDenyOnce
  | TapAllowAlways
  | TapDenyAlways
  | FormDone string bool
  | WindowClosed

definition dispatch :: "(string \<Rightarrow> string) \<Rightarrow> Event \<Rightarrow> Dialog \<Rightarrow> Dialog \<times> unit call" where
  "dispatch trimSpace e d =
     (if windowOpen d
      then (case e of
              TapAllowOnce \<Rightarrow> btnAllowOnce_OnTapped d
            | TapDenyOnce \<Rightarrow> btnDenyOnce_OnTapped d
            | TapAllowAlways \<Rightarrow> (d, Returns ())
            | TapDenyAlways \<Rightarrow> btnDenyAlways_OnTapped d
            | FormDone entryText confirm \<Rightarrow>
                allowAlwaysForm_callback trimSpace entryText confirm d
            | WindowClosed \<Rightarrow> dialogWindow_Close d)
      else (d, Returns ()))"




section \<open>Secure proxy handler\<close>

record Request =
  Method :: string
  URL_String :: string
  RequestHost :: string

record SecureProxyHandler =
  ruleEngine :: RuleEngine
  configManager :: ConfigManager

text \<open>What the handler does with the request: an error response with its status code and
  body, or delegation to the original proxy handler.\<close>

datatype Response = HttpError nat string | Forwarded

text \<open>The string the rules are checked against: \<^verbatim>\<open>r.URL.String()\<close>, or for a
  \<^verbatim>\<open>CONNECT\<close> request \<^verbatim>\<open>"https://" + r.Host\<close>.\<close>

definition requestURLString :: "Request \<Rightarrow> string" where
  "requestURLString r =
     (if Method r = ''CONNECT'' then ''https://'' @ RequestHost r else URL_String r)"

text \<open>\<^verbatim>\<open>sph.ruleEngine.UpdateRules(sph.configManager.GetConfig().AllowAlways,
  sph.configManager.GetConfig().DenyAlways)\<close>, with its two calls of \<^verbatim>\<open>GetConfig\<close>.\<close>

definition reloadRules :: "SecureProxyHandler \<Rightarrow> SecureProxyHandler \<times> unit call" where
  "reloadRules sph =
     (case GetConfig (configManager sph) of
        (cm1, Blocks) \<Rightarrow> (sph\<lparr>configManager := cm1\<rparr>, Blocks)
      | (cm1, Returns c1) \<Rightarrow>
          (case GetConfig cm1 of
             (cm2, Blocks) \<Rightarrow> (sph\<lparr>configManager := cm2\<rparr>, Blocks)
           | (cm2, Returns c2) \<Rightarrow>
               (sph\<lparr>configManager := cm2,
                    ruleEngine := UpdateRules (ruleEngine sph) (AllowAlways c1) (DenyAlways c2)\<rparr>,
                Returns ())))"

text \<open>
  The tail of \<^verbatim>\<open>ServeHTTP\<close> that an allowed request reaches: the upstream proxy is read
  from the configuration and the request is delegated to the original handler. The
  routing that is set up on the shared transport from the upstream proxy is not part of
  the model.
\<close>

definition forward :: "SecureProxyHandler \<Rightarrow> SecureProxyHandler \<times> Response call" where
  "forward sph =
     (case GetUpstreamProxy (configManager sph) of
        (cm, Blocks) \<Rightarrow> (sph\<lparr>configManager := cm\<rparr>, Blocks)
      | (cm, Returns upstreamProxyURL) \<Rightarrow> (sph\<lparr>configManager := cm\<rparr>, Returns Forwarded))"

definition ServeHTTP ::
  "url_parser \<Rightarrow> path_matcher \<Rightarrow> (PromptRequest \<Rightarrow> PromptResponse) \<Rightarrow>
   (Config \<Rightarrow> string option) \<Rightarrow> SecureProxyHandler \<Rightarrow> Request \<Rightarrow>
   SecureProxyHandler \<times> Response call" where
  "ServeHTTP parse pm user writeFile sph r =
     (let decision = CheckURL parse pm (ruleEngine sph) (requestURLString r)
      in if decision = Denied
         then (sph, Returns (HttpError 403
                 ''Blocked by corporate policy (matched deny_always rule)''))
         else if decision = PromptUser
         then
           (case RequestUserDecision parse user (requestURLString r) of
              (userDecision, ruleToAdd) \<Rightarrow>
                (case userDecision of
                   UserDecisionDenyOnce \<Rightarrow>
                     (sph, Returns (HttpError 403 ''Blocked by user (Deny Once)''))
                 | UserDecisionDenyAlways \<Rightarrow>
                     (let rule = (if ruleToAdd = []
                                  then (case parse (requestURLString r) of
                                          Inr parsedURL \<Rightarrow> Hostname parsedURL
                                        | Inl err \<Rightarrow> requestURLString r)
                                  else ruleToAdd)
                      in case AddDenyRule writeFile (configManager sph) rule of
                           (cm, Blocks) \<Rightarrow> (sph\<lparr>configManager := cm\<rparr>, Blocks)
                         | (cm, Returns err) \<Rightarrow>
                             (case reloadRules (sph\<lparr>configManager := cm\<rparr>) of
                                (sph', Blocks) \<Rightarrow> (sph', Blocks)
                              | (sph', Returns _) \<Rightarrow>
                                  (sph', Returns (HttpError 403
                                     ''Blocked by user (Deny Always)''))))
                 | UserDecisionAllowAlways \<Rightarrow>
                     (case AddAllowRule writeFile (configManager sph) ruleToAdd of
                        (cm, Blocks) \<Rightarrow> (sph\<lparr>configManager := cm\<rparr>, Blocks)
                      | (cm, Returns err) \<Rightarrow>
                          (case reloadRules (sph\<lparr>configManager := cm\<rparr>) of
                             (sph', Blocks) \<Rightarrow> (sph', Blocks)
                           | (sph', Returns _) \<Rightarrow> forward sph'))
                 | UserDecisionAllowOnce \<Rightarrow> forward sph
                 | UserDecisionError \<Rightarrow>
                     (sph, Returns (HttpError 500 ''Failed to get user decision''))
                 | UserDecisionDialogDismissed \<Rightarrow>
                     (sph, Returns (HttpError 500 ''Unknown decision outcome''))))
         else forward sph)"


section \<open>Properties of the rule engine\<close>

lemma strings_Contains_slash: "strings_Contains s ''/'' = (CHR ''/'' \<in> set s)"
  by (induction s) auto

lemma denyLoop_Some:
  "(denyLoop pm ps hwp h = Some d) =
     (d = Denied \<and> (\<exists>p \<in> set ps. pm p hwp \<or> (CHR ''/'' \<notin> set p \<and> pm p h)))"
  by (induction ps) (auto simp: strings_Contains_slash)

lemma denyLoop_None:
  "(denyLoop pm ps hwp h = None) =
     (\<forall>p \<in> set ps. \<not> pm p hwp \<and> (CHR ''/'' \<in> set p \<or> \<not> pm p h))"
  by (induction ps) (auto simp: strings_Contains_slash)

lemma allowLoop_Some:
  "(allowLoop pm ps hwp h = Some d) =
     (d = Allowed \<and> (\<exists>p \<in> set ps. pm p hwp \<or> (CHR ''/'' \<notin> set p \<and> pm p h)))"
  by (induction ps) (auto simp: strings_Contains_slash)

lemma allowLoop_None:
  "(allowLoop pm ps hwp h = None) =
     (\<forall>p \<in> set ps. \<not> pm p hwp \<and> (CHR ''/'' \<in> set p \<or> \<not> pm p h))"
  by (induction ps) (auto simp: strings_Contains_slash)

lemma spec_rule_match_iff:
  "spec_rule_match pm p u =
     (pm p (Host u @ Path u) \<or> (CHR ''/'' \<notin> set p \<and> pm p (Host u)))"
  by (auto simp: spec_rule_match_def)

lemma CheckURL_Denied_iff:
  assumes "parse rawURL = Inr u"
  shows "(CheckURL parse pm re rawURL = Denied) =
           (\<exists>p \<in> set (denyAlwaysPatterns re). spec_rule_match pm p u)"
proof (cases "denyLoop pm (denyAlwaysPatterns re) (Host u @ Path u) (Host u)")
  case None
  then have no: "\<not> (\<exists>p \<in> set (denyAlwaysPatterns re). spec_rule_match pm p u)"
    by (auto simp: denyLoop_None spec_rule_match_iff)
  have "CheckURL parse pm re rawURL \<noteq> Denied"
  proof (cases "allowLoop pm (allowAlwaysPatterns re) (Host u @ Path u) (Host u)")
    case None
    with \<open>denyLoop pm (denyAlwaysPatterns re) (Host u @ Path u) (Host u) = None\<close> assms
    show ?thesis by (simp add: CheckURL_def)
  next
    case (Some d)
    then have "d = Allowed" by (simp add: allowLoop_Some)
    with Some \<open>denyLoop pm (denyAlwaysPatterns re) (Host u @ Path u) (Host u) = None\<close> assms
    show ?thesis by (simp add: CheckURL_def)
  qed
  with no show ?thesis by simp
next
  case (Some d)
  then have d: "d = Denied"
    and ex: "\<exists>p \<in> set (denyAlwaysPatterns re). spec_rule_match pm p u"
    by (auto simp: denyLoop_Some spec_rule_match_iff)
  from Some d assms have "CheckURL parse pm re rawURL = Denied"
    by (simp add: CheckURL_def)
  with ex show ?thesis by simp
qed

lemma CheckURL_Allowed_iff:
  assumes "parse rawURL = Inr u"
  shows "(CheckURL parse pm re rawURL = Allowed) =
           ((\<forall>p \<in> set (denyAlwaysPatterns re). \<not> spec_rule_match pm p u) \<and>
            (\<exists>p \<in> set (allowAlwaysPatterns re). spec_rule_match pm p u))"
proof (cases "denyLoop pm (denyAlwaysPatterns re) (Host u @ Path u) (Host u)")
  case (Some d)
  then have d: "d = Denied"
    and ex: "\<exists>p \<in> set (denyAlwaysPatterns re). spec_rule_match pm p u"
    by (auto simp: denyLoop_Some spec_rule_match_iff)
  from Some d assms have "CheckURL parse pm re rawURL = Denied"
    by (simp add: CheckURL_def)
  with ex show ?thesis by auto
next
  case None
  then have no: "\<forall>p \<in> set (denyAlwaysPatterns re). \<not> spec_rule_match pm p u"
    by (auto simp: denyLoop_None spec_rule_match_iff)
  show ?thesis
  proof (cases "allowLoop pm (allowAlwaysPatterns re) (Host u @ Path u) (Host u)")
    case None
    then have "\<not> (\<exists>p \<in> set (allowAlwaysPatterns re). spec_rule_match pm p u)"
      by (auto simp: allowLoop_None spec_rule_match_iff)
    moreover from None \<open>denyLoop pm (denyAlwaysPatterns re) (Host u @ Path u) (Host u) = None\<close>
      assms have "CheckURL parse pm re rawURL = PromptUser"
      by (simp add: CheckURL_def)
    ultimately show ?thesis by simp
  next
    case (Some d)
    then have d: "d = Allowed"
      and ex: "\<exists>p \<in> set (allowAlwaysPatterns re). spec_rule_match pm p u"
      by (auto simp: allowLoop_Some spec_rule_match_iff)
    from Some d \<open>denyLoop pm (denyAlwaysPatterns re) (Host u @ Path u) (Host u) = None\<close> assms
    have "CheckURL parse pm re rawURL = Allowed"
      by (simp add: CheckURL_def)
    with no ex show ?thesis by simp
  qed
qed

lemmas url_Parse_eval =
  url_Parse_def getScheme_def parseHost_def validOptionalPort_def
  is_letter_def is_digit_def ishex_def

lemmas CheckURL_eval = CheckURL_def NewRuleEngine_def url_Parse_eval

text \<open>
  The two library models against the repository's own test table
  \<^verbatim>\<open>TestRuleEngine_CheckURL\<close>: with them \<open>CheckURL\<close> gives the expected decision on
  these rows of the table. The remaining row expects \<open>example.com/*\<close> to match
  \<open>example.com/allow/this\<close>, across a path separator, which the glob semantics of the
  specification excludes; the models classify that target as undecided.
\<close>

lemma TestRuleEngine_CheckURL_rows:
  "CheckURL url_Parse path_Match (NewRuleEngine [] [''blocked.com''])
       ''http://blocked.com/path'' = Denied
   \<and> CheckURL url_Parse path_Match (NewRuleEngine [] [''*.blocked.com''])
       ''http://sub.blocked.com'' = Denied
   \<and> CheckURL url_Parse path_Match (NewRuleEngine [] [''example.com/private/*''])
       ''http://example.com/private/secret'' = Denied
   \<and> CheckURL url_Parse path_Match (NewRuleEngine [] [''blocked.com:8080''])
       ''http://blocked.com:8080/path'' = Denied
   \<and> CheckURL url_Parse path_Match (NewRuleEngine [''allowed.com''] [''allowed.com''])
       ''http://allowed.com'' = Denied
   \<and> CheckURL url_Parse path_Match (NewRuleEngine [''example.com/*''] [''example.com/deny/*''])
       ''http://example.com/deny/this'' = Denied
   \<and> CheckURL url_Parse path_Match (NewRuleEngine [''allowed.com''] [])
       ''http://allowed.com/path'' = Allowed
   \<and> CheckURL url_Parse path_Match (NewRuleEngine [''*.allowed.com''] [])
       ''http://sub.allowed.com'' = Allowed
   \<and> CheckURL url_Parse path_Match (NewRuleEngine [''example.com/public/*''] [])
       ''http://example.com/public/resource'' = Allowed
   \<and> CheckURL url_Parse path_Match (NewRuleEngine [''allowed.com:8080''] [])
       ''http://allowed.com:8080/path'' = Allowed
   \<and> CheckURL url_Parse path_Match (NewRuleEngine [''good.com''] [''bad.com''])
       ''http://good.com/index'' = Allowed
   \<and> CheckURL url_Parse path_Match (NewRuleEngine [''allowed.com''] [''denied.com''])
       ''http://other.com'' = PromptUser
   \<and> CheckURL url_Parse path_Match (NewRuleEngine [''example.com/specific''] [])
       ''http://example.com/other'' = PromptUser
   \<and> CheckURL url_Parse path_Match (NewRuleEngine [] [''example.com/specific''])
       ''http://example.com/other'' = PromptUser
   \<and> CheckURL url_Parse path_Match (NewRuleEngine [] [])
       ''http://anything.com'' = PromptUser
   \<and> CheckURL url_Parse path_Match (NewRuleEngine [''*.domain.com''] [])
       ''http://sub.sub.domain.com'' = Allowed
   \<and> CheckURL url_Parse path_Match (NewRuleEngine [''*.domain.com''] [])
       ''http://domain.com'' = PromptUser
   \<and> CheckURL url_Parse path_Match (NewRuleEngine [''*''] [])
       ''http://domain.com'' = Allowed
   \<and> CheckURL url_Parse path_Match (NewRuleEngine [''*''] [])
       ''http://domain.com/path'' = Allowed
   \<and> CheckURL url_Parse path_Match (NewRuleEngine [''*/path''] [])
       ''http://domain.com/path'' = Allowed
   \<and> CheckURL url_Parse path_Match (NewRuleEngine [''example.com/*''] [])
       ''http://example.com'' = PromptUser
   \<and> CheckURL url_Parse path_Match (NewRuleEngine [''example.com/*''] [])
       ''http://example.com/'' = Allowed
   \<and> CheckURL url_Parse path_Match (NewRuleEngine [''example.com''] [])
       ''http://example.com/'' = Allowed
   \<and> CheckURL url_Parse path_Match (NewRuleEngine [''example.com/query''] [])
       ''http://example.com/query?param=val'' = Allowed
   \<and> CheckURL url_Parse path_Match (NewRuleEngine [] [''example.com/frag''])
       ''http://example.com/frag#section'' = Denied
   \<and> CheckURL url_Parse path_Match (NewRuleEngine [''secure.com/*''] [])
       ''https://secure.com/page'' = Allowed
   \<and> CheckURL url_Parse path_Match (NewRuleEngine [] [''block.secure.com''])
       ''https://block.secure.com'' = Denied
   \<and> CheckURL url_Parse path_Match (NewRuleEngine [] [])
       ''http://%'' = Denied"
  by code_simp

lemma TestRuleEngine_CheckURL_star_row:
  "CheckURL url_Parse path_Match (NewRuleEngine [''example.com/*''] [''example.com/deny/*''])
     ''http://example.com/allow/this'' = PromptUser"
  by code_simp

text \<open>
  C1: whenever some deny pattern matches the target and some allow pattern matches it
  too, \<open>CheckURL\<close> returns \<open>Denied\<close>. The deny patterns are decided first: with a
  matching deny pattern the result is \<open>Denied\<close> whatever the allow list holds, however
  specific its patterns are.
\<close>

theorem C1_deny_precedence:
  assumes "parse rawURL = Inr u"
    and "\<exists>d \<in> set (denyAlwaysPatterns re). spec_rule_match pm d u"
    and "\<exists>a \<in> set (allowAlwaysPatterns re). spec_rule_match pm a u"
  shows "CheckURL parse pm re rawURL = Denied
         \<and> (\<forall>allow. CheckURL parse pm (re\<lparr>allowAlwaysPatterns := allow\<rparr>) rawURL = Denied)"
  using assms(1,2) by (simp add: CheckURL_Denied_iff)

theorem C1_deny_precedence_witness:
  "url_Parse ''http://allowed.com/index'' =
     Inr \<lparr>Scheme = ''http'', Opaque = [], Host = ''allowed.com'', Path = ''/index'',
          RawQuery = [], Fragment = []\<rparr>
   \<and> spec_rule_match path_Match ''*.com''
       \<lparr>Scheme = ''http'', Opaque = [], Host = ''allowed.com'', Path = ''/index'',
        RawQuery = [], Fragment = []\<rparr>
   \<and> spec_rule_match path_Match ''allowed.com/index''
       \<lparr>Scheme = ''http'', Opaque = [], Host = ''allowed.com'', Path = ''/index'',
        RawQuery = [], Fragment = []\<rparr>
   \<and> CheckURL url_Parse path_Match (NewRuleEngine [''allowed.com/index''] [''*.com''])
       ''http://allowed.com/index'' = Denied"
proof -
  let ?u = "\<lparr>Scheme = ''http'', Opaque = [], Host = ''allowed.com'', Path = ''/index'',
             RawQuery = [], Fragment = []\<rparr>"
  have p: "url_Parse ''http://allowed.com/index'' = Inr ?u"
    by (simp add: url_Parse_eval)
  have d: "spec_rule_match path_Match ''*.com'' ?u"
    by (simp add: spec_rule_match_def)
  have a: "spec_rule_match path_Match ''allowed.com/index'' ?u"
    by (simp add: spec_rule_match_def)
  have "CheckURL url_Parse path_Match (NewRuleEngine [''allowed.com/index''] [''*.com''])
          ''http://allowed.com/index'' = Denied"
    using C1_deny_precedence [of url_Parse "''http://allowed.com/index''" ?u
        "NewRuleEngine [''allowed.com/index''] [''*.com'']" path_Match] p d a
    by (simp add: NewRuleEngine_def)
  with p d a show ?thesis by blast
qed

text \<open>
  C2: a raw target that cannot be parsed is classified \<open>Denied\<close>. The result does not
  depend on the rule lists or on the matcher, so no pattern is consulted; in particular
  it is \<open>Denied\<close> with both lists empty.
\<close>

theorem C2_unparsable_denied:
  assumes "parse rawURL = Inl err"
  shows "CheckURL parse pm re rawURL = Denied
         \<and> CheckURL parse pm (NewRuleEngine [] []) rawURL = Denied"
  using assms by (simp add: CheckURL_def)

theorem C2_unparsable_denied_witness:
  "url_Parse ''http://%'' = Inl ''invalid URL escape''
   \<and> CheckURL url_Parse path_Match (NewRuleEngine [''*''] []) ''http://%'' = Denied
   \<and> CheckURL url_Parse path_Match (NewRuleEngine [] []) ''http://%'' = Denied"
proof -
  have p: "url_Parse ''http://%'' = Inl ''invalid URL escape''"
    by (simp add: url_Parse_eval)
  from C2_unparsable_denied
      [of url_Parse "''http://%''" "''invalid URL escape''" path_Match
        "NewRuleEngine [''*''] []"] p
  show ?thesis by simp
qed

text \<open>
  C8: the decision of \<open>CheckURL\<close> on a parsed target is the specification's rule match:
  a pattern without a path separator counts as matching when it matches the full
  "host[:port]/path" string or, failing that, "host[:port]" alone, so a bare domain
  pattern that matches the host matches whatever the path is; a pattern with a path
  separator counts only when it matches the full string.
\<close>

theorem C8_host_only_shorthand:
  assumes "parse rawURL = Inr u"
  shows "((CheckURL parse pm re rawURL = Denied) =
            (\<exists>p \<in> set (denyAlwaysPatterns re). spec_rule_match pm p u))
       \<and> ((CheckURL parse pm re rawURL = Allowed) =
            ((\<forall>p \<in> set (denyAlwaysPatterns re). \<not> spec_rule_match pm p u) \<and>
             (\<exists>p \<in> set (allowAlwaysPatterns re). spec_rule_match pm p u)))
       \<and> (CHR ''/'' \<notin> set p \<longrightarrow>
            spec_rule_match pm p u = (pm p (Host u @ Path u) \<or> pm p (Host u)))
       \<and> (CHR ''/'' \<in> set p \<longrightarrow> spec_rule_match pm p u = pm p (Host u @ Path u))
       \<and> (CHR ''/'' \<notin> set p \<and> pm p (Host u) \<longrightarrow>
            (\<forall>anyPath. spec_rule_match pm p (u\<lparr>Path := anyPath\<rparr>)))"
  using assms
  by (simp add: CheckURL_Denied_iff CheckURL_Allowed_iff spec_rule_match_def)

theorem C8_host_only_shorthand_witness:
  "url_Parse ''http://blocked.com/path'' =
     Inr \<lparr>Scheme = ''http'', Opaque = [], Host = ''blocked.com'', Path = ''/path'',
          RawQuery = [], Fragment = []\<rparr>
   \<and> CHR ''/'' \<notin> set ''blocked.com''
   \<and> \<not> path_Match ''blocked.com'' ''blocked.com/path''
   \<and> path_Match ''blocked.com'' ''blocked.com''
   \<and> CheckURL url_Parse path_Match (NewRuleEngine [] [''blocked.com''])
       ''http://blocked.com/path'' = Denied
   \<and> CheckURL url_Parse path_Match (NewRuleEngine [''blocked.com''] [])
       ''http://blocked.com/path'' = Allowed
   \<and> CHR ''/'' \<in> set ''blocked.com/''
   \<and> CheckURL url_Parse path_Match (NewRuleEngine [''blocked.com/''] [])
       ''http://blocked.com/path'' = PromptUser"
proof -
  let ?u = "\<lparr>Scheme = ''http'', Opaque = [], Host = ''blocked.com'', Path = ''/path'',
             RawQuery = [], Fragment = []\<rparr>"
  have p: "url_Parse ''http://blocked.com/path'' = Inr ?u"
    by (simp add: url_Parse_eval)
  note c8 = C8_host_only_shorthand [of url_Parse "''http://blocked.com/path''" ?u path_Match]
  have m: "spec_rule_match path_Match ''blocked.com'' ?u"
    using c8 [OF p, of "NewRuleEngine [] []" "''blocked.com''"] by simp
  have n: "\<not> spec_rule_match path_Match ''blocked.com/'' ?u"
    using c8 [OF p, of "NewRuleEngine [] []" "''blocked.com/''"] by simp
  have d: "CheckURL url_Parse path_Match (NewRuleEngine [] [''blocked.com''])
             ''http://blocked.com/path'' = Denied"
    using c8 [OF p, of "NewRuleEngine [] [''blocked.com'']" "''blocked.com''"] m
    by (simp add: NewRuleEngine_def)
  have a: "CheckURL url_Parse path_Match (NewRuleEngine [''blocked.com''] [])
             ''http://blocked.com/path'' = Allowed"
    using c8 [OF p, of "NewRuleEngine [''blocked.com''] []" "''blocked.com''"] m
    by (simp add: NewRuleEngine_def)
  have "CheckURL url_Parse path_Match (NewRuleEngine [''blocked.com/''] [])
          ''http://blocked.com/path'' \<noteq> Denied"
    using c8 [OF p, of "NewRuleEngine [''blocked.com/''] []" "''blocked.com/''"]
    by (simp add: NewRuleEngine_def)
  moreover have "CheckURL url_Parse path_Match (NewRuleEngine [''blocked.com/''] [])
          ''http://blocked.com/path'' \<noteq> Allowed"
    using c8 [OF p, of "NewRuleEngine [''blocked.com/''] []" "''blocked.com/''"] n
    by (simp add: NewRuleEngine_def)
  ultimately have u: "CheckURL url_Parse path_Match (NewRuleEngine [''blocked.com/''] [])
          ''http://blocked.com/path'' = PromptUser"
    by (cases "CheckURL url_Parse path_Match (NewRuleEngine [''blocked.com/''] [])
          ''http://blocked.com/path''") simp_all
  from p d a u show ?thesis by simp
qed

text \<open>
  The glob matcher on a pattern without wildcard is equality, and a leading star stands
  for any run of characters without a slash in front of what the rest of the pattern
  matches. The run may be empty.
\<close>

lemma path_Match_literal:
  "CHR ''*'' \<notin> set lit \<Longrightarrow> CHR ''?'' \<notin> set lit \<Longrightarrow> path_Match lit s = (s = lit)"
proof (induction lit arbitrary: s)
  case Nil
  then show ?case by simp
next
  case (Cons c lit)
  then show ?case by (cases s) auto
qed

lemma path_Match_star:
  "path_Match (CHR ''*'' # p) s =
     (\<exists>l r. s = l @ r \<and> CHR ''/'' \<notin> set l \<and> path_Match p r)"
proof (induction s)
  case Nil
  then show ?case by simp
next
  case (Cons n s)
  note IH = Cons.IH
  show ?case (is "?L = ?R")
  proof
    assume ?L
    then consider "path_Match p (n # s)"
      | "n \<noteq> CHR ''/''" "path_Match (CHR ''*'' # p) s"
      by auto
    then show ?R
    proof cases
      case 1
      then have "n # s = [] @ (n # s) \<and> CHR ''/'' \<notin> set [] \<and> path_Match p (n # s)"
        by simp
      then show ?thesis by blast
    next
      case 2
      with IH obtain l r where "s = l @ r" "CHR ''/'' \<notin> set l" "path_Match p r"
        by auto
      with 2 have "n # s = (n # l) @ r \<and> CHR ''/'' \<notin> set (n # l) \<and> path_Match p r"
        by auto
      then show ?thesis by blast
    qed
  next
    assume ?R
    then obtain l r where lr: "n # s = l @ r" "CHR ''/'' \<notin> set l" "path_Match p r"
      by auto
    show ?L
    proof (cases l)
      case Nil
      with lr have "path_Match p (n # s)" by simp
      then show ?thesis by simp
    next
      case (Cons a l')
      with lr have "s = l' @ r" "a = n" "n \<noteq> CHR ''/''" "CHR ''/'' \<notin> set l'"
        by auto
      with lr(3) IH have "path_Match (CHR ''*'' # p) s" by auto
      with \<open>n \<noteq> CHR ''/''\<close> show ?thesis by simp
    qed
  qed
qed

text \<open>
  C9 (as amended): with the allow list \<open>["*.domain.com"]\<close> and no deny pattern, the target
  derived from \<open>http://domain.com\<close> is undecided, and with the allow list
  \<open>["*.allowed.com"]\<close> the target derived from \<open>http://sub.allowed.com\<close> is allowed. The
  pattern \<open>*.domain.com\<close> matches exactly the names that end in \<open>.domain.com\<close> after a
  label without a slash; the bare domain has no dot in front and is not one of them. The
  label may be empty. So, under that allow list alone, a target is allowed when its host
  or its host with the path is such a name, and undecided otherwise.
\<close>

theorem C9_wildcard_scenarios:
  "CheckURL url_Parse path_Match (NewRuleEngine [''*.domain.com''] []) ''http://domain.com''
     = PromptUser
   \<and> CheckURL url_Parse path_Match (NewRuleEngine [''*.allowed.com''] [])
       ''http://sub.allowed.com'' = Allowed
   \<and> (path_Match ''*.domain.com'' name \<longleftrightarrow>
        (\<exists>label. name = label @ ''.domain.com'' \<and> CHR ''/'' \<notin> set label))
   \<and> (parse rawURL = Inr u \<longrightarrow>
        CheckURL parse path_Match (NewRuleEngine [''*.domain.com''] []) rawURL =
          (if \<exists>label. CHR ''/'' \<notin> set label \<and>
                (Host u @ Path u = label @ ''.domain.com'' \<or>
                 Host u = label @ ''.domain.com'')
           then Allowed else PromptUser))"
proof (intro conjI impI)
  show "CheckURL url_Parse path_Match (NewRuleEngine [''*.domain.com''] [])
      ''http://domain.com'' = PromptUser"
    by (simp add: CheckURL_eval)
  show "CheckURL url_Parse path_Match (NewRuleEngine [''*.allowed.com''] [])
      ''http://sub.allowed.com'' = Allowed"
    by (simp add: CheckURL_eval)
  show m: "path_Match ''*.domain.com'' name \<longleftrightarrow>
      (\<exists>label. name = label @ ''.domain.com'' \<and> CHR ''/'' \<notin> set label)" for name
    by (simp add: path_Match_star path_Match_literal)
  assume p: "parse rawURL = Inr u"
  have c: "\<not> strings_Contains ''*.domain.com'' ''/''"
    by (simp add: strings_Contains_slash)
  have k: "CheckURL parse path_Match (NewRuleEngine [''*.domain.com''] []) rawURL =
      (if path_Match ''*.domain.com'' (Host u @ Path u) \<or>
          path_Match ''*.domain.com'' (Host u)
       then Allowed else PromptUser)"
    unfolding CheckURL_def p using c by (simp add: NewRuleEngine_def Let_def)
  have q: "(path_Match ''*.domain.com'' (Host u @ Path u) \<or>
      path_Match ''*.domain.com'' (Host u)) =
      (\<exists>label. CHR ''/'' \<notin> set label \<and>
            (Host u @ Path u = label @ ''.domain.com'' \<or>
             Host u = label @ ''.domain.com''))"
    unfolding m by blast
  show "CheckURL parse path_Match (NewRuleEngine [''*.domain.com''] []) rawURL =
      (if \<exists>label. CHR ''/'' \<notin> set label \<and>
            (Host u @ Path u = label @ ''.domain.com'' \<or>
             Host u = label @ ''.domain.com'')
       then Allowed else PromptUser)"
    unfolding k q ..
qed

theorem C9_wildcard_scenarios_witness:
  "url_Parse ''http://a.domain.com/'' =
     Inr \<lparr>Scheme = ''http'', Opaque = [], Host = ''a.domain.com'', Path = ''/'',
          RawQuery = [], Fragment = []\<rparr>
   \<and> CheckURL url_Parse path_Match (NewRuleEngine [''*.domain.com''] [])
       ''http://a.domain.com/'' = Allowed"
proof -
  let ?u = "\<lparr>Scheme = ''http'', Opaque = [], Host = ''a.domain.com'', Path = ''/'',
          RawQuery = [], Fragment = []\<rparr>"
  have p: "url_Parse ''http://a.domain.com/'' = Inr ?u"
    by code_simp
  have e: "\<exists>label. CHR ''/'' \<notin> set label \<and>
      (Host ?u @ Path ?u = label @ ''.domain.com'' \<or> Host ?u = label @ ''.domain.com'')"
    by (rule exI [of _ "''a''"]) simp
  from C9_wildcard_scenarios [of "''a.domain.com''" url_Parse "''http://a.domain.com/''" ?u,
      THEN conjunct2, THEN conjunct2, THEN conjunct2, THEN mp, OF p]
  have "CheckURL url_Parse path_Match (NewRuleEngine [''*.domain.com''] [])
      ''http://a.domain.com/'' =
        (if \<exists>label. CHR ''/'' \<notin> set label \<and>
            (Host ?u @ Path ?u = label @ ''.domain.com'' \<or>
             Host ?u = label @ ''.domain.com'')
         then Allowed else PromptUser)"
    .
  with e p show ?thesis by (simp only: if_True simp_thms)
qed

text \<open>
  The claim as the specification words it gives as the reason that the wildcard requires
  a non-empty label in front. It does not: the star matches the empty run, so the name
  \<open>.domain.com\<close> matches the pattern and the target derived from \<open>http://.domain.com\<close>
  is allowed.
\<close>

theorem C9_wildcard_matches_empty_label:
  "path_Match ''*.domain.com'' ''.domain.com''
   \<and> CheckURL url_Parse path_Match (NewRuleEngine [''*.domain.com''] [])
       ''http://.domain.com'' = Allowed"
  by code_simp

text \<open>
  C10: the decision depends on the raw URL only through the parsed host (with its port)
  and path. Two URL strings that parse to the same host and the same path get the same
  decision under every rule set, whatever their queries and fragments are.
\<close>

theorem C10_query_fragment_irrelevant:
  assumes "parse rawURL1 = Inr u1"
    and "parse rawURL2 = Inr u2"
    and "Host u1 = Host u2"
    and "Path u1 = Path u2"
  shows "CheckURL parse pm re rawURL1 = CheckURL parse pm re rawURL2"
  unfolding CheckURL_def assms(1,2) using assms(3,4)
  by (simp add: Let_def split: option.splits)

theorem C10_query_fragment_irrelevant_witness:
  "url_Parse ''http://example.com/query?param=val'' =
     Inr \<lparr>Scheme = ''http'', Opaque = [], Host = ''example.com'', Path = ''/query'',
          RawQuery = ''param=val'', Fragment = []\<rparr>
   \<and> url_Parse ''http://example.com/query#section'' =
     Inr \<lparr>Scheme = ''http'', Opaque = [], Host = ''example.com'', Path = ''/query'',
          RawQuery = [], Fragment = ''section''\<rparr>
   \<and> CheckURL url_Parse path_Match (NewRuleEngine [''example.com/query''] [])
       ''http://example.com/query?param=val''
     = CheckURL url_Parse path_Match (NewRuleEngine [''example.com/query''] [])
       ''http://example.com/query#section''
   \<and> CheckURL url_Parse path_Match (NewRuleEngine [''example.com/query''] [])
       ''http://example.com/query#section'' = Allowed"
proof -
  have p1: "url_Parse ''http://example.com/query?param=val'' =
     Inr \<lparr>Scheme = ''http'', Opaque = [], Host = ''example.com'', Path = ''/query'',
          RawQuery = ''param=val'', Fragment = []\<rparr>"
    by (simp add: url_Parse_eval)
  have p2: "url_Parse ''http://example.com/query#section'' =
     Inr \<lparr>Scheme = ''http'', Opaque = [], Host = ''example.com'', Path = ''/query'',
          RawQuery = [], Fragment = ''section''\<rparr>"
    by (simp add: url_Parse_eval)
  have e: "CheckURL url_Parse path_Match (NewRuleEngine [''example.com/query''] [])
       ''http://example.com/query?param=val''
     = CheckURL url_Parse path_Match (NewRuleEngine [''example.com/query''] [])
       ''http://example.com/query#section''"
    using C10_query_fragment_irrelevant
      [of url_Parse "''http://example.com/query?param=val''" _
        "''http://example.com/query#section''" _ path_Match
        "NewRuleEngine [''example.com/query''] []", OF p1 p2]
    by simp
  have a: "CheckURL url_Parse path_Match (NewRuleEngine [''example.com/query''] [])
       ''http://example.com/query#section'' = Allowed"
    by (simp add: CheckURL_def NewRuleEngine_def p2)
  from p1 p2 e a show ?thesis by simp
qed

section \<open>Properties of the configuration manager and the handler\<close>

lemma alreadyExists_iff: "alreadyExists ps p = (p \<in> set ps)"
  by (induction ps) auto

lemma mu_same: "mu cm = m \<Longrightarrow> cm\<lparr>mu := m\<rparr> = cm"
  by (cases cm) simp

lemma AddAllowRule_existing:
  assumes "mu cm = Unlocked" and "pattern \<in> set (AllowAlways (config cm))"
  shows "AddAllowRule writeFile cm pattern = (cm, Returns None)"
  using assms by (simp add: AddAllowRule_def Lock_def Unlock_def alreadyExists_iff mu_same)

lemma AddAllowRule_new:
  assumes "mu cm = Unlocked" and "pattern \<notin> set (AllowAlways (config cm))"
  shows "AddAllowRule writeFile cm pattern =
           (cm\<lparr>mu := WriteLocked,
               config := (config cm)\<lparr>AllowAlways := AllowAlways (config cm) @ [pattern]\<rparr>\<rparr>,
            Blocks)"
  using assms
  by (simp add: AddAllowRule_def SaveConfig_def Lock_def RLock_def alreadyExists_iff)

lemma AddDenyRule_existing:
  assumes "mu cm = Unlocked" and "pattern \<in> set (DenyAlways (config cm))"
  shows "AddDenyRule writeFile cm pattern = (cm, Returns None)"
  using assms by (simp add: AddDenyRule_def Lock_def Unlock_def alreadyExists_iff mu_same)

lemma AddDenyRule_new:
  assumes "mu cm = Unlocked" and "pattern \<notin> set (DenyAlways (config cm))"
  shows "AddDenyRule writeFile cm pattern =
           (cm\<lparr>mu := WriteLocked,
               config := (config cm)\<lparr>DenyAlways := DenyAlways (config cm) @ [pattern]\<rparr>\<rparr>,
            Blocks)"
  using assms
  by (simp add: AddDenyRule_def SaveConfig_def Lock_def RLock_def alreadyExists_iff)

lemma GetConfig_unlocked:
  "mu cm = Unlocked \<Longrightarrow> GetConfig cm = (cm, Returns (config cm))"
  by (simp add: GetConfig_def RLock_def RUnlock_def mu_same)

lemma GetUpstreamProxy_unlocked:
  "mu cm = Unlocked \<Longrightarrow> GetUpstreamProxy cm = (cm, Returns (UpstreamProxy (config cm)))"
  by (simp add: GetUpstreamProxy_def RLock_def RUnlock_def mu_same)

lemma cm_same: "configManager sph = cm \<Longrightarrow> sph\<lparr>configManager := cm\<rparr> = sph"
  by (cases sph) simp

lemma reloadRules_unlocked:
  "mu (configManager sph) = Unlocked \<Longrightarrow>
     reloadRules sph =
       (sph\<lparr>ruleEngine := UpdateRules (ruleEngine sph)
                 (AllowAlways (config (configManager sph)))
                 (DenyAlways (config (configManager sph)))\<rparr>,
        Returns ())"
  by (simp add: reloadRules_def GetConfig_unlocked cm_same)

lemma forward_unlocked:
  "mu (configManager sph) = Unlocked \<Longrightarrow> forward sph = (sph, Returns Forwarded)"
  by (simp add: forward_def GetUpstreamProxy_unlocked cm_same)


section \<open>Claims about the configuration manager, the prompt and the handler\<close>

text \<open>
  C4, at the failing input: on a configuration that does not hold the pattern,
  \<open>AddAllowRule\<close> appends the pattern in memory and then never returns. \<open>SaveConfig\<close>
  waits for the read lock of the mutex whose write lock its caller still holds, so
  nothing is written to the configuration file and the write lock is never released.
  \<open>AddDenyRule\<close> behaves the same way.
\<close>

theorem C4_append_blocks_on_new_pattern:
  "AddAllowRule (\<lambda>c. None)
     \<lparr>configFilePath = ''config.yaml'',
      config = \<lparr>AllowAlways = [], DenyAlways = [], UpstreamProxy = []\<rparr>,
      mu = Unlocked, configFile = []\<rparr> ''allow.com''
   = (\<lparr>configFilePath = ''config.yaml'',
       config = \<lparr>AllowAlways = [''allow.com''], DenyAlways = [], UpstreamProxy = []\<rparr>,
       mu = WriteLocked, configFile = []\<rparr>, Blocks)
   \<and> AddDenyRule (\<lambda>c. None)
     \<lparr>configFilePath = ''config.yaml'',
      config = \<lparr>AllowAlways = [], DenyAlways = [], UpstreamProxy = []\<rparr>,
      mu = Unlocked, configFile = []\<rparr> ''deny.com''
   = (\<lparr>configFilePath = ''config.yaml'',
       config = \<lparr>AllowAlways = [], DenyAlways = [''deny.com''], UpstreamProxy = []\<rparr>,
       mu = WriteLocked, configFile = []\<rparr>, Blocks)"
  by (simp add: AddAllowRule_def AddDenyRule_def SaveConfig_def Lock_def RLock_def)

text \<open>
  C5, as amended: for an undecided request whose URL parses, with the configuration lock
  free. On a "deny always" outcome with an empty rule text the handler hands the hostname
  of the target (the host without its port) to \<open>AddDenyRule\<close>; the "Deny Always" button
  delivers that same hostname. On an "allow always" outcome the handler hands the rule
  text to \<open>AddAllowRule\<close> as delivered, without a default. Whenever the call returns,
  the request is rejected with status 403, respectively forwarded.
\<close>

theorem C5_always_rule:
  assumes "parse (requestURLString r) = Inr u"
    and "CheckURL parse pm (ruleEngine sph) (requestURLString r) = PromptUser"
    and "mu (configManager sph) = Unlocked"
  shows
    "(user (newPromptRequest parse (requestURLString r)) =
        \<lparr>Decision = UserDecisionDenyAlways, RuleToAdd = []\<rparr> \<longrightarrow>
      DenyAlways (config (configManager (fst (ServeHTTP parse pm user writeFile sph r)))) =
        (if Hostname u \<in> set (DenyAlways (config (configManager sph)))
         then DenyAlways (config (configManager sph))
         else DenyAlways (config (configManager sph)) @ [Hostname u])
      \<and> (Hostname u \<in> set (DenyAlways (config (configManager sph))) \<longrightarrow>
           snd (ServeHTTP parse pm user writeFile sph r) =
             Returns (HttpError 403 ''Blocked by user (Deny Always)''))
      \<and> (\<forall>x. snd (ServeHTTP parse pm user writeFile sph r) = Returns x \<longrightarrow>
           x = HttpError 403 ''Blocked by user (Deny Always)''))
   \<and> (user (newPromptRequest parse (requestURLString r)) =
        \<lparr>Decision = UserDecisionAllowAlways, RuleToAdd = rule\<rparr> \<longrightarrow>
      AllowAlways (config (configManager (fst (ServeHTTP parse pm user writeFile sph r)))) =
        (if rule \<in> set (AllowAlways (config (configManager sph)))
         then AllowAlways (config (configManager sph))
         else AllowAlways (config (configManager sph)) @ [rule])
      \<and> (rule \<in> set (AllowAlways (config (configManager sph))) \<longrightarrow>
           snd (ServeHTTP parse pm user writeFile sph r) = Returns Forwarded)
      \<and> (\<forall>x. snd (ServeHTTP parse pm user writeFile sph r) = Returns x \<longrightarrow>
           x = Forwarded))
   \<and> (user (newPromptRequest parse (requestURLString r)) =
        btnDenyAlways (newPromptRequest parse (requestURLString r)) \<longrightarrow>
      DenyAlways (config (configManager (fst (ServeHTTP parse pm user writeFile sph r)))) =
        (if Hostname u \<in> set (DenyAlways (config (configManager sph)))
         then DenyAlways (config (configManager sph))
         else DenyAlways (config (configManager sph)) @ [Hostname u]))"
proof (intro conjI impI)
  assume d: "user (newPromptRequest parse (requestURLString r)) =
        \<lparr>Decision = UserDecisionDenyAlways, RuleToAdd = []\<rparr>"
  let ?res = "ServeHTTP parse pm user writeFile sph r"
  let ?old = "DenyAlways (config (configManager sph))"
  have run: "?res =
      (case AddDenyRule writeFile (configManager sph) (Hostname u) of
         (cm, Blocks) \<Rightarrow> (sph\<lparr>configManager := cm\<rparr>, Blocks)
       | (cm, Returns err) \<Rightarrow>
           (case reloadRules (sph\<lparr>configManager := cm\<rparr>) of
              (sph', Blocks) \<Rightarrow> (sph', Blocks)
            | (sph', Returns _) \<Rightarrow>
                (sph', Returns (HttpError 403 ''Blocked by user (Deny Always)''))))"
    using assms(1,2) d by (simp add: ServeHTTP_def RequestUserDecision_def)
  show "DenyAlways (config (configManager (fst ?res))) =
        (if Hostname u \<in> set ?old then ?old else ?old @ [Hostname u])"
    using assms(3)
    by (simp add: run AddDenyRule_existing AddDenyRule_new reloadRules_unlocked cm_same)
  show "snd ?res = Returns (HttpError 403 ''Blocked by user (Deny Always)'')"
    if "Hostname u \<in> set ?old"
    using assms(3) that
    by (simp add: run AddDenyRule_existing reloadRules_unlocked cm_same)
  show "\<forall>x. snd ?res = Returns x \<longrightarrow> x = HttpError 403 ''Blocked by user (Deny Always)''"
    using assms(3)
    by (cases "Hostname u \<in> set ?old")
      (simp_all add: run AddDenyRule_existing AddDenyRule_new reloadRules_unlocked cm_same)
next
  assume a: "user (newPromptRequest parse (requestURLString r)) =
        \<lparr>Decision = UserDecisionAllowAlways, RuleToAdd = rule\<rparr>"
  let ?res = "ServeHTTP parse pm user writeFile sph r"
  let ?old = "AllowAlways (config (configManager sph))"
  have run: "?res =
      (case AddAllowRule writeFile (configManager sph) rule of
         (cm, Blocks) \<Rightarrow> (sph\<lparr>configManager := cm\<rparr>, Blocks)
       | (cm, Returns err) \<Rightarrow>
           (case reloadRules (sph\<lparr>configManager := cm\<rparr>) of
              (sph', Blocks) \<Rightarrow> (sph', Blocks)
            | (sph', Returns _) \<Rightarrow> forward sph'))"
    using assms(1,2) a by (simp add: ServeHTTP_def RequestUserDecision_def)
  show "AllowAlways (config (configManager (fst ?res))) =
        (if rule \<in> set ?old then ?old else ?old @ [rule])"
    using assms(3)
    by (simp add: run AddAllowRule_existing AddAllowRule_new reloadRules_unlocked
        forward_unlocked cm_same)
  show "snd ?res = Returns Forwarded" if "rule \<in> set ?old"
    using assms(3) that
    by (simp add: run AddAllowRule_existing reloadRules_unlocked forward_unlocked cm_same)
  show "\<forall>x. snd ?res = Returns x \<longrightarrow> x = Forwarded"
    using assms(3)
    by (cases "rule \<in> set ?old")
      (simp_all add: run AddAllowRule_existing AddAllowRule_new reloadRules_unlocked
        forward_unlocked cm_same)
next
  assume b: "user (newPromptRequest parse (requestURLString r)) =
        btnDenyAlways (newPromptRequest parse (requestURLString r))"
  let ?res = "ServeHTTP parse pm user writeFile sph r"
  let ?old = "DenyAlways (config (configManager sph))"
  have run: "?res =
      (case AddDenyRule writeFile (configManager sph) (Hostname u) of
         (cm, Blocks) \<Rightarrow> (sph\<lparr>configManager := cm\<rparr>, Blocks)
       | (cm, Returns err) \<Rightarrow>
           (case reloadRules (sph\<lparr>configManager := cm\<rparr>) of
              (sph', Blocks) \<Rightarrow> (sph', Blocks)
            | (sph', Returns _) \<Rightarrow>
                (sph', Returns (HttpError 403 ''Blocked by user (Deny Always)''))))"
    using assms(1,2) b
    by (simp add: ServeHTTP_def RequestUserDecision_def btnDenyAlways_def newPromptRequest_def)
  show "DenyAlways (config (configManager (fst ?res))) =
        (if Hostname u \<in> set ?old then ?old else ?old @ [Hostname u])"
    using assms(3)
    by (simp add: run AddDenyRule_existing AddDenyRule_new reloadRules_unlocked cm_same)
qed

theorem C5_always_rule_witness:
  "ServeHTTP url_Parse path_Match
     (\<lambda>req. \<lparr>Decision = UserDecisionDenyAlways, RuleToAdd = []\<rparr>) (\<lambda>c. None)
     \<lparr>ruleEngine = NewRuleEngine [] [''example.com''],
      configManager = \<lparr>configFilePath = ''config.yaml'',
        config = \<lparr>AllowAlways = [], DenyAlways = [''example.com''], UpstreamProxy = []\<rparr>,
        mu = Unlocked, configFile = []\<rparr>\<rparr>
     \<lparr>Method = ''GET'', URL_String = ''http://example.com:8080/x'',
      RequestHost = ''example.com:8080''\<rparr>
   = (\<lparr>ruleEngine = NewRuleEngine [] [''example.com''],
      configManager = \<lparr>configFilePath = ''config.yaml'',
        config = \<lparr>AllowAlways = [], DenyAlways = [''example.com''], UpstreamProxy = []\<rparr>,
        mu = Unlocked, configFile = []\<rparr>\<rparr>,
      Returns (HttpError 403 ''Blocked by user (Deny Always)''))
   \<and> Hostname \<lparr>Scheme = ''http'', Opaque = [], Host = ''example.com:8080'', Path = ''/x'',
        RawQuery = [], Fragment = []\<rparr> = ''example.com''
   \<and> snd (ServeHTTP url_Parse path_Match
     (\<lambda>req. \<lparr>Decision = UserDecisionAllowAlways, RuleToAdd = ''*.example.com''\<rparr>) (\<lambda>c. None)
     \<lparr>ruleEngine = NewRuleEngine [''*.example.com''] [],
      configManager = \<lparr>configFilePath = ''config.yaml'',
        config = \<lparr>AllowAlways = [''*.example.com''], DenyAlways = [], UpstreamProxy = []\<rparr>,
        mu = Unlocked, configFile = []\<rparr>\<rparr>
     \<lparr>Method = ''GET'', URL_String = ''http://example.com:8080/x'',
      RequestHost = ''example.com:8080''\<rparr>) = Returns Forwarded"
proof -
  let ?u = "\<lparr>Scheme = ''http'', Opaque = [], Host = ''example.com:8080'', Path = ''/x'',
        RawQuery = [], Fragment = []\<rparr>"
  let ?r = "\<lparr>Method = ''GET'', URL_String = ''http://example.com:8080/x'',
      RequestHost = ''example.com:8080''\<rparr>"
  let ?sphD = "\<lparr>ruleEngine = NewRuleEngine [] [''example.com''],
      configManager = \<lparr>configFilePath = ''config.yaml'',
        config = \<lparr>AllowAlways = [], DenyAlways = [''example.com''], UpstreamProxy = []\<rparr>,
        mu = Unlocked, configFile = []\<rparr>\<rparr>"
  let ?sphA = "\<lparr>ruleEngine = NewRuleEngine [''*.example.com''] [],
      configManager = \<lparr>configFilePath = ''config.yaml'',
        config = \<lparr>AllowAlways = [''*.example.com''], DenyAlways = [], UpstreamProxy = []\<rparr>,
        mu = Unlocked, configFile = []\<rparr>\<rparr>"
  let ?userD = "\<lambda>req::PromptRequest. \<lparr>Decision = UserDecisionDenyAlways, RuleToAdd = []\<rparr>"
  let ?userA = "\<lambda>req::PromptRequest.
      \<lparr>Decision = UserDecisionAllowAlways, RuleToAdd = ''*.example.com''\<rparr>"
  have p: "url_Parse (requestURLString ?r) = Inr ?u" by code_simp
  have h: "Hostname ?u = ''example.com''" by code_simp
  have cD: "CheckURL url_Parse path_Match (ruleEngine ?sphD) (requestURLString ?r) = PromptUser"
    by code_simp
  have cA: "CheckURL url_Parse path_Match (ruleEngine ?sphA) (requestURLString ?r) = PromptUser"
    by code_simp
  have mD: "mu (configManager ?sphD) = Unlocked" by simp
  have mA: "mu (configManager ?sphA) = Unlocked" by simp
  have hD: "Hostname ?u \<in> set (DenyAlways (config (configManager ?sphD)))" by code_simp
  have hA: "''*.example.com'' \<in> set (AllowAlways (config (configManager ?sphA)))" by simp
  note tD = C5_always_rule [where parse = url_Parse and pm = path_Match and r = ?r and u = ?u
        and sph = ?sphD and user = ?userD and writeFile = "\<lambda>c. None", OF p cD mD]
  note tA = C5_always_rule [where parse = url_Parse and pm = path_Match and r = ?r and u = ?u
        and sph = ?sphA and user = ?userA and writeFile = "\<lambda>c. None"
        and rule = "''*.example.com''", OF p cA mA]
  have sD: "snd (ServeHTTP url_Parse path_Match ?userD (\<lambda>c. None) ?sphD ?r) =
      Returns (HttpError 403 ''Blocked by user (Deny Always)'')"
    using tD hD by blast
  have fD: "fst (ServeHTTP url_Parse path_Match ?userD (\<lambda>c. None) ?sphD ?r) = ?sphD"
    by code_simp
  have sA: "snd (ServeHTTP url_Parse path_Match ?userA (\<lambda>c. None) ?sphA ?r) = Returns Forwarded"
    using tA hA by blast
  have "ServeHTTP url_Parse path_Match ?userD (\<lambda>c. None) ?sphD ?r =
      (?sphD, Returns (HttpError 403 ''Blocked by user (Deny Always)''))"
    using sD fD by (rule_tac prod_eqI) simp_all
  with h sA show ?thesis by blast
qed

text \<open>
  C5 as stated fails for "allow always": an empty rule text is not replaced by the
  target's host. On an empty configuration the rule appended is the empty string; on a
  configuration that already holds the empty string the request is forwarded and the host
  \<open>example.com\<close> is never added.
\<close>

theorem C5_allow_rule_not_defaulted:
  "AllowAlways (config (configManager (fst
     (ServeHTTP url_Parse path_Match
        (\<lambda>req. \<lparr>Decision = UserDecisionAllowAlways, RuleToAdd = []\<rparr>) (\<lambda>c. None)
        \<lparr>ruleEngine = NewRuleEngine [] [],
         configManager = \<lparr>configFilePath = ''config.yaml'',
           config = \<lparr>AllowAlways = [], DenyAlways = [], UpstreamProxy = []\<rparr>,
           mu = Unlocked, configFile = []\<rparr>\<rparr>
        \<lparr>Method = ''GET'', URL_String = ''http://example.com/x'',
         RequestHost = ''example.com''\<rparr>)))) = [[]]
   \<and> [[]] \<noteq> [''example.com'']
   \<and> ServeHTTP url_Parse path_Match
        (\<lambda>req. \<lparr>Decision = UserDecisionAllowAlways, RuleToAdd = []\<rparr>) (\<lambda>c. None)
        \<lparr>ruleEngine = NewRuleEngine [[]] [],
         configManager = \<lparr>configFilePath = ''config.yaml'',
           config = \<lparr>AllowAlways = [[]], DenyAlways = [], UpstreamProxy = []\<rparr>,
           mu = Unlocked, configFile = []\<rparr>\<rparr>
        \<lparr>Method = ''GET'', URL_String = ''http://example.com/x'',
         RequestHost = ''example.com''\<rparr>
     = (\<lparr>ruleEngine = NewRuleEngine [[]] [],
         configManager = \<lparr>configFilePath = ''config.yaml'',
           config = \<lparr>AllowAlways = [[]], DenyAlways = [], UpstreamProxy = []\<rparr>,
           mu = Unlocked, configFile = []\<rparr>\<rparr>,
        Returns Forwarded)
   \<and> Hostname \<lparr>Scheme = ''http'', Opaque = [], Host = ''example.com'', Path = ''/x'',
        RawQuery = [], Fragment = []\<rparr> = ''example.com''"
  by code_simp

text \<open>
  C6: for an undecided request, the outcomes \<open>UserDecisionError\<close> and
  \<open>UserDecisionDialogDismissed\<close> reject the request with status 500 and leave the handler's
  state unchanged. A denial by a rule, by "deny once" or by "deny always" carries status
  403 instead.
\<close>

theorem C6_provider_failure_is_internal_error:
  "(CheckURL parse pm (ruleEngine sph) (requestURLString r) = PromptUser \<and>
      Decision (user (newPromptRequest parse (requestURLString r))) = UserDecisionError \<longrightarrow>
      ServeHTTP parse pm user writeFile sph r =
        (sph, Returns (HttpError 500 ''Failed to get user decision'')))
   \<and> (CheckURL parse pm (ruleEngine sph) (requestURLString r) = PromptUser \<and>
      Decision (user (newPromptRequest parse (requestURLString r))) =
        UserDecisionDialogDismissed \<longrightarrow>
      ServeHTTP parse pm user writeFile sph r =
        (sph, Returns (HttpError 500 ''Unknown decision outcome'')))
   \<and> (CheckURL parse pm (ruleEngine sph) (requestURLString r) = Denied \<longrightarrow>
      ServeHTTP parse pm user writeFile sph r =
        (sph, Returns (HttpError 403
           ''Blocked by corporate policy (matched deny_always rule)'')))
   \<and> (CheckURL parse pm (ruleEngine sph) (requestURLString r) = PromptUser \<and>
      Decision (user (newPromptRequest parse (requestURLString r))) = UserDecisionDenyOnce \<longrightarrow>
      ServeHTTP parse pm user writeFile sph r =
        (sph, Returns (HttpError 403 ''Blocked by user (Deny Once)'')))
   \<and> (CheckURL parse pm (ruleEngine sph) (requestURLString r) = PromptUser \<and>
      Decision (user (newPromptRequest parse (requestURLString r))) =
        UserDecisionDenyAlways \<longrightarrow>
      (\<forall>x. snd (ServeHTTP parse pm user writeFile sph r) = Returns x \<longrightarrow>
           x = HttpError 403 ''Blocked by user (Deny Always)''))"
proof (intro conjI impI allI; (elim conjE)?)
  assume "CheckURL parse pm (ruleEngine sph) (requestURLString r) = PromptUser"
    and "Decision (user (newPromptRequest parse (requestURLString r))) = UserDecisionError"
  then show "ServeHTTP parse pm user writeFile sph r =
        (sph, Returns (HttpError 500 ''Failed to get user decision''))"
    by (simp add: ServeHTTP_def RequestUserDecision_def)
next
  assume "CheckURL parse pm (ruleEngine sph) (requestURLString r) = PromptUser"
    and "Decision (user (newPromptRequest parse (requestURLString r))) =
           UserDecisionDialogDismissed"
  then show "ServeHTTP parse pm user writeFile sph r =
        (sph, Returns (HttpError 500 ''Unknown decision outcome''))"
    by (simp add: ServeHTTP_def RequestUserDecision_def)
next
  assume "CheckURL parse pm (ruleEngine sph) (requestURLString r) = Denied"
  then show "ServeHTTP parse pm user writeFile sph r =
        (sph, Returns (HttpError 403
           ''Blocked by corporate policy (matched deny_always rule)''))"
    by (simp add: ServeHTTP_def)
next
  assume "CheckURL parse pm (ruleEngine sph) (requestURLString r) = PromptUser"
    and "Decision (user (newPromptRequest parse (requestURLString r))) = UserDecisionDenyOnce"
  then show "ServeHTTP parse pm user writeFile sph r =
        (sph, Returns (HttpError 403 ''Blocked by user (Deny Once)''))"
    by (simp add: ServeHTTP_def RequestUserDecision_def)
next
  fix x
  assume c: "CheckURL parse pm (ruleEngine sph) (requestURLString r) = PromptUser"
    and d: "Decision (user (newPromptRequest parse (requestURLString r))) =
           UserDecisionDenyAlways"
    and s: "snd (ServeHTTP parse pm user writeFile sph r) = Returns x"
  from c d s show "x = HttpError 403 ''Blocked by user (Deny Always)''"
    by (auto simp: ServeHTTP_def RequestUserDecision_def Let_def
        split: prod.splits call.splits)
qed

theorem C6_provider_failure_is_internal_error_witness:
  "ServeHTTP url_Parse path_Match
     (\<lambda>req. \<lparr>Decision = UserDecisionError, RuleToAdd = []\<rparr>) (\<lambda>c. None)
     \<lparr>ruleEngine = NewRuleEngine [] [''blocked.com''],
      configManager = \<lparr>configFilePath = ''config.yaml'',
        config = \<lparr>AllowAlways = [], DenyAlways = [''blocked.com''], UpstreamProxy = []\<rparr>,
        mu = Unlocked, configFile = []\<rparr>\<rparr>
     \<lparr>Method = ''GET'', URL_String = ''http://anything.com'', RequestHost = ''anything.com''\<rparr>
   = (\<lparr>ruleEngine = NewRuleEngine [] [''blocked.com''],
      configManager = \<lparr>configFilePath = ''config.yaml'',
        config = \<lparr>AllowAlways = [], DenyAlways = [''blocked.com''], UpstreamProxy = []\<rparr>,
        mu = Unlocked, configFile = []\<rparr>\<rparr>,
      Returns (HttpError 500 ''Failed to get user decision''))
   \<and> snd (ServeHTTP url_Parse path_Match
     (\<lambda>req. \<lparr>Decision = UserDecisionDialogDismissed, RuleToAdd = []\<rparr>) (\<lambda>c. None)
     \<lparr>ruleEngine = NewRuleEngine [] [''blocked.com''],
      configManager = \<lparr>configFilePath = ''config.yaml'',
        config = \<lparr>AllowAlways = [], DenyAlways = [''blocked.com''], UpstreamProxy = []\<rparr>,
        mu = Unlocked, configFile = []\<rparr>\<rparr>
     \<lparr>Method = ''GET'', URL_String = ''http://anything.com'', RequestHost = ''anything.com''\<rparr>)
   = Returns (HttpError 500 ''Unknown decision outcome'')
   \<and> snd (ServeHTTP url_Parse path_Match
     (\<lambda>req. \<lparr>Decision = UserDecisionError, RuleToAdd = []\<rparr>) (\<lambda>c. None)
     \<lparr>ruleEngine = NewRuleEngine [] [''blocked.com''],
      configManager = \<lparr>configFilePath = ''config.yaml'',
        config = \<lparr>AllowAlways = [], DenyAlways = [''blocked.com''], UpstreamProxy = []\<rparr>,
        mu = Unlocked, configFile = []\<rparr>\<rparr>
     \<lparr>Method = ''GET'', URL_String = ''http://blocked.com/path'',
      RequestHost = ''blocked.com''\<rparr>)
   = Returns (HttpError 403 ''Blocked by corporate policy (matched deny_always rule)'')
   \<and> snd (ServeHTTP url_Parse path_Match
     (\<lambda>req. \<lparr>Decision = UserDecisionDenyOnce, RuleToAdd = []\<rparr>) (\<lambda>c. None)
     \<lparr>ruleEngine = NewRuleEngine [] [''blocked.com''],
      configManager = \<lparr>configFilePath = ''config.yaml'',
        config = \<lparr>AllowAlways = [], DenyAlways = [''blocked.com''], UpstreamProxy = []\<rparr>,
        mu = Unlocked, configFile = []\<rparr>\<rparr>
     \<lparr>Method = ''GET'', URL_String = ''http://anything.com'', RequestHost = ''anything.com''\<rparr>)
   = Returns (HttpError 403 ''Blocked by user (Deny Once)'')
   \<and> snd (ServeHTTP url_Parse path_Match
     (\<lambda>req. \<lparr>Decision = UserDecisionDenyAlways, RuleToAdd = ''blocked.com''\<rparr>) (\<lambda>c. None)
     \<lparr>ruleEngine = NewRuleEngine [] [''blocked.com''],
      configManager = \<lparr>configFilePath = ''config.yaml'',
        config = \<lparr>AllowAlways = [], DenyAlways = [''blocked.com''], UpstreamProxy = []\<rparr>,
        mu = Unlocked, configFile = []\<rparr>\<rparr>
     \<lparr>Method = ''GET'', URL_String = ''http://blocked.com:8080/x'',
      RequestHost = ''blocked.com:8080''\<rparr>)
   = Returns (HttpError 403 ''Blocked by user (Deny Always)'')"
proof -
  let ?sph = "\<lparr>ruleEngine = NewRuleEngine [] [''blocked.com''],
      configManager = \<lparr>configFilePath = ''config.yaml'',
        config = \<lparr>AllowAlways = [], DenyAlways = [''blocked.com''], UpstreamProxy = []\<rparr>,
        mu = Unlocked, configFile = []\<rparr>\<rparr>"
  let ?r1 = "\<lparr>Method = ''GET'', URL_String = ''http://anything.com'',
      RequestHost = ''anything.com''\<rparr>"
  let ?r2 = "\<lparr>Method = ''GET'', URL_String = ''http://blocked.com/path'',
      RequestHost = ''blocked.com''\<rparr>"
  let ?r3 = "\<lparr>Method = ''GET'', URL_String = ''http://blocked.com:8080/x'',
      RequestHost = ''blocked.com:8080''\<rparr>"
  let ?uE = "\<lambda>req::PromptRequest. \<lparr>Decision = UserDecisionError, RuleToAdd = []\<rparr>"
  let ?uX = "\<lambda>req::PromptRequest. \<lparr>Decision = UserDecisionDialogDismissed, RuleToAdd = []\<rparr>"
  let ?uO = "\<lambda>req::PromptRequest. \<lparr>Decision = UserDecisionDenyOnce, RuleToAdd = []\<rparr>"
  let ?uA = "\<lambda>req::PromptRequest.
      \<lparr>Decision = UserDecisionDenyAlways, RuleToAdd = ''blocked.com''\<rparr>"
  have c1: "CheckURL url_Parse path_Match (ruleEngine ?sph) (requestURLString ?r1) = PromptUser"
    by code_simp
  have c2: "CheckURL url_Parse path_Match (ruleEngine ?sph) (requestURLString ?r2) = Denied"
    by code_simp
  have c3: "CheckURL url_Parse path_Match (ruleEngine ?sph) (requestURLString ?r3) = PromptUser"
    by code_simp
  have dE: "Decision (?uE (newPromptRequest url_Parse (requestURLString ?r1))) =
      UserDecisionError" by simp
  have dX: "Decision (?uX (newPromptRequest url_Parse (requestURLString ?r1))) =
      UserDecisionDialogDismissed" by simp
  have dO: "Decision (?uO (newPromptRequest url_Parse (requestURLString ?r1))) =
      UserDecisionDenyOnce" by simp
  have dA: "Decision (?uA (newPromptRequest url_Parse (requestURLString ?r3))) =
      UserDecisionDenyAlways" by simp
  have ret: "snd (ServeHTTP url_Parse path_Match ?uA (\<lambda>c. None) ?sph ?r3) =
      Returns (HttpError 403 ''Blocked by user (Deny Always)'')"
    by code_simp
  have e: "ServeHTTP url_Parse path_Match ?uE (\<lambda>c. None) ?sph ?r1 =
      (?sph, Returns (HttpError 500 ''Failed to get user decision''))"
    using C6_provider_failure_is_internal_error
      [of url_Parse path_Match ?sph ?r1 ?uE "\<lambda>c. None"] c1 dE by blast
  have x: "ServeHTTP url_Parse path_Match ?uX (\<lambda>c. None) ?sph ?r1 =
      (?sph, Returns (HttpError 500 ''Unknown decision outcome''))"
    using C6_provider_failure_is_internal_error
      [of url_Parse path_Match ?sph ?r1 ?uX "\<lambda>c. None"] c1 dX by blast
  have d: "ServeHTTP url_Parse path_Match ?uE (\<lambda>c. None) ?sph ?r2 =
      (?sph, Returns (HttpError 403
         ''Blocked by corporate policy (matched deny_always rule)''))"
    using C6_provider_failure_is_internal_error
      [of url_Parse path_Match ?sph ?r2 ?uE "\<lambda>c. None"] c2 by blast
  have o: "ServeHTTP url_Parse path_Match ?uO (\<lambda>c. None) ?sph ?r1 =
      (?sph, Returns (HttpError 403 ''Blocked by user (Deny Once)''))"
    using C6_provider_failure_is_internal_error
      [of url_Parse path_Match ?sph ?r1 ?uO "\<lambda>c. None"] c1 dO by blast
  have a: "\<forall>y. snd (ServeHTTP url_Parse path_Match ?uA (\<lambda>c. None) ?sph ?r3) = Returns y \<longrightarrow>
      y = HttpError 403 ''Blocked by user (Deny Always)''"
    using C6_provider_failure_is_internal_error
      [of url_Parse path_Match ?sph ?r3 ?uA "\<lambda>c. None"] c3 dA by blast
  from e x d o a ret show ?thesis by simp
qed

text \<open>
  C7: when the prompt window is closed and no button was pressed, the callback delivers
  exactly one response, "deny once" with an empty rule. With that response the handler
  rejects the request with status 403, forwards nothing and leaves the rule engine and
  the configuration unchanged.
\<close>

theorem C7_window_closed_is_DenyOnce:
  "OnClosed UserDecisionDialogDismissed =
     [\<lparr>Decision = UserDecisionDenyOnce, RuleToAdd = []\<rparr>]
   \<and> (CheckURL parse pm (ruleEngine sph) (requestURLString r) = PromptUser \<and>
      [user (newPromptRequest parse (requestURLString r))] =
        OnClosed UserDecisionDialogDismissed \<longrightarrow>
      ServeHTTP parse pm user writeFile sph r =
        (sph, Returns (HttpError 403 ''Blocked by user (Deny Once)'')))"
proof (intro conjI impI; (elim conjE)?)
  show o: "OnClosed UserDecisionDialogDismissed =
     [\<lparr>Decision = UserDecisionDenyOnce, RuleToAdd = []\<rparr>]"
    by (simp add: OnClosed_def)
  assume c: "CheckURL parse pm (ruleEngine sph) (requestURLString r) = PromptUser"
    and u: "[user (newPromptRequest parse (requestURLString r))] =
        OnClosed UserDecisionDialogDismissed"
  from u have "user (newPromptRequest parse (requestURLString r)) =
      \<lparr>Decision = UserDecisionDenyOnce, RuleToAdd = []\<rparr>"
    by (simp add: o)
  with c show "ServeHTTP parse pm user writeFile sph r =
        (sph, Returns (HttpError 403 ''Blocked by user (Deny Once)''))"
    by (simp add: ServeHTTP_def RequestUserDecision_def)
qed

theorem C7_window_closed_is_DenyOnce_witness:
  "OnClosed UserDecisionDialogDismissed =
     [\<lparr>Decision = UserDecisionDenyOnce, RuleToAdd = []\<rparr>]
   \<and> ServeHTTP url_Parse path_Match
     (\<lambda>req. \<lparr>Decision = UserDecisionDenyOnce, RuleToAdd = []\<rparr>) (\<lambda>c. None)
     \<lparr>ruleEngine = NewRuleEngine [] [],
      configManager = \<lparr>configFilePath = ''config.yaml'',
        config = \<lparr>AllowAlways = [], DenyAlways = [], UpstreamProxy = []\<rparr>,
        mu = Unlocked, configFile = []\<rparr>\<rparr>
     \<lparr>Method = ''GET'', URL_String = ''http://anything.com'', RequestHost = ''anything.com''\<rparr>
   = (\<lparr>ruleEngine = NewRuleEngine [] [],
      configManager = \<lparr>configFilePath = ''config.yaml'',
        config = \<lparr>AllowAlways = [], DenyAlways = [], UpstreamProxy = []\<rparr>,
        mu = Unlocked, configFile = []\<rparr>\<rparr>,
      Returns (HttpError 403 ''Blocked by user (Deny Once)''))"
proof -
  let ?sph = "\<lparr>ruleEngine = NewRuleEngine [] [],
      configManager = \<lparr>configFilePath = ''config.yaml'',
        config = \<lparr>AllowAlways = [], DenyAlways = [], UpstreamProxy = []\<rparr>,
        mu = Unlocked, configFile = []\<rparr>\<rparr>"
  let ?r = "\<lparr>Method = ''GET'', URL_String = ''http://anything.com'',
      RequestHost = ''anything.com''\<rparr>"
  let ?user = "\<lambda>req::PromptRequest. \<lparr>Decision = UserDecisionDenyOnce, RuleToAdd = []\<rparr>"
  have c: "CheckURL url_Parse path_Match (ruleEngine ?sph) (requestURLString ?r) = PromptUser"
    by code_simp
  have u: "[?user (newPromptRequest url_Parse (requestURLString ?r))] =
      OnClosed UserDecisionDialogDismissed"
    by (simp add: OnClosed_def)
  from C7_window_closed_is_DenyOnce [of url_Parse path_Match ?sph ?r ?user "\<lambda>c. None"] c u
  show ?thesis by blast
qed


section \<open>The prompt dialog delivers exactly one response\<close>

lemmas dialog_defs = dispatch_def btnAllowOnce_OnTapped_def btnDenyOnce_OnTapped_def
  btnDenyAlways_OnTapped_def allowAlwaysForm_callback_def sendResponse_def
  dialogWindow_Close_def dialogWindow_OnClosed_def OnClosed_def chan_send_def





text \<open>
  What keeps the delivery single is the variable \<^verbatim>\<open>chosenDecision\<close>, which the
  window-closed callback reads, together with the window itself, which hands out no tap
  once it is closed. The \<^verbatim>\<open>select\<close> at the head of \<^verbatim>\<open>sendResponse\<close> adds nothing to it:
  a response that was already received leaves no sender on the channel, so the receive
  is not ready. Were a button callback run after the window-closed callback had
  delivered, its send would find no receiver and block.
\<close>

lemma sendResponse_after_delivery_blocks:
  "btnAllowOnce_OnTapped (fst (dialogWindow_Close (showPromptDialog rq))) =
    (\<lparr>req = rq,
      ResponseChan = \<lparr>receivers = 0,
         sending = [\<lparr>Decision = UserDecisionAllowOnce, RuleToAdd = []\<rparr>],
         received = [\<lparr>Decision = UserDecisionDenyOnce, RuleToAdd = []\<rparr>]\<rparr>,
      chosenDecision = UserDecisionAllowOnce, chosenRule = [], windowOpen = False\<rparr>,
     Blocks)"
  by (simp add: dialog_defs showPromptDialog_def)

end
